theory Spec2Isabelle
  imports Complex_Main
begin

section \<open>Errors\<close>

text \<open>
  Every exception class of the service is a constructor that carries the message handed
  to the class constructor. \<open>Error\<close> is the plain JavaScript \<open>Error\<close> that
  \<open>DriverService\<close> throws, and \<open>PrismaError\<close> is an error that the database client
  raises. A function that may throw returns \<open>error + 'a\<close> (\<open>Inl\<close> is the exception); a
  method that may throw and mutates \<open>this\<close> returns that result paired with the object as
  the call leaves it.
\<close>

datatype error =
    InvalidHoursOfServiceError string
  | InvalidDriverDataError string
  | InvalidEndorsementTypeError string
  | InvalidDocumentTypeError string
  | Error string
  | PrismaError string

section \<open>Numbers\<close>

text \<open>
  A JavaScript number is a finite value, one of the two infinities, or \<open>NaN\<close>. The finite
  values are taken as real numbers, so the rounding of a sum is not modelled. \<open>js_lt\<close> is
  the operator \<open><\<close>, \<open>js_gt\<close> is \<open>>\<close> and \<open>js_le\<close> is \<open><=\<close>: every comparison with
  \<open>NaN\<close> is false. \<open>js_add\<close> and \<open>js_sub\<close> are \<open>+\<close> and \<open>-\<close>, and \<open>Math_max\<close> is
  \<open>Math.max\<close> of two arguments.
\<close>

datatype number = Fin real | PInf | NInf | NaN

fun js_lt :: "number \<Rightarrow> number \<Rightarrow> bool" where
  "js_lt (Fin a) (Fin b) = (a < b)"
| "js_lt (Fin a) PInf = True"
| "js_lt NInf (Fin b) = True"
| "js_lt NInf PInf = True"
| "js_lt a b = False"

definition js_gt :: "number \<Rightarrow> number \<Rightarrow> bool" where
  "js_gt a b = js_lt b a"

definition js_le :: "number \<Rightarrow> number \<Rightarrow> bool" where
  "js_le a b \<longleftrightarrow> a \<noteq> NaN \<and> b \<noteq> NaN \<and> \<not> js_lt b a"

fun js_add :: "number \<Rightarrow> number \<Rightarrow> number" where
  "js_add (Fin a) (Fin b) = Fin (a + b)"
| "js_add NaN b = NaN"
| "js_add a NaN = NaN"
| "js_add PInf NInf = NaN"
| "js_add NInf PInf = NaN"
| "js_add PInf b = PInf"
| "js_add a PInf = PInf"
| "js_add NInf b = NInf"
| "js_add a NInf = NInf"

fun js_neg :: "number \<Rightarrow> number" where
  "js_neg (Fin a) = Fin (- a)"
| "js_neg PInf = NInf"
| "js_neg NInf = PInf"
| "js_neg NaN = NaN"

definition js_sub :: "number \<Rightarrow> number \<Rightarrow> number" where
  "js_sub a b = js_add a (js_neg b)"

definition Math_max :: "number \<Rightarrow> number \<Rightarrow> number" where
  "Math_max a b = (if a = NaN \<or> b = NaN then NaN else if js_lt a b then b else a)"

section \<open>HoursOfService\<close>

record HoursOfService =
  id_hos :: "nat option"
  drivingHoursToday :: number
  dutyHoursToday :: number
  timeUntilBreakRequired :: number
  driverId_hos :: "string option"

definition MAX_DRIVING_HOURS_PER_DAY :: number where
  "MAX_DRIVING_HOURS_PER_DAY = Fin 11"

definition MAX_DUTY_HOURS_PER_DAY :: number where
  "MAX_DUTY_HOURS_PER_DAY = Fin 14"

definition REQUIRED_BREAK_TIME :: number where
  "REQUIRED_BREAK_TIME = Fin 0.5"

text \<open>The private constructor keeps \<open>id\<close> and \<open>driverId\<close> only when they are truthy.\<close>

definition new_HoursOfService ::
  "number \<Rightarrow> number \<Rightarrow> number \<Rightarrow> nat option \<Rightarrow> string option \<Rightarrow> HoursOfService" where
  "new_HoursOfService driving duty untilBreak i drv =
     \<lparr> id_hos = (case i of None \<Rightarrow> None | Some n \<Rightarrow> if n = 0 then None else Some n),
       drivingHoursToday = driving,
       dutyHoursToday = duty,
       timeUntilBreakRequired = untilBreak,
       driverId_hos = (case drv of None \<Rightarrow> None | Some s \<Rightarrow> if s = [] then None else Some s) \<rparr>"

definition validateHours :: "number \<Rightarrow> number \<Rightarrow> number \<Rightarrow> error + unit" where
  "validateHours drivingHours dutyHours timeUntilBreak =
     (if js_lt drivingHours (Fin 0) then
        Inl (InvalidHoursOfServiceError ''Driving hours cannot be negative'')
      else if js_lt dutyHours (Fin 0) then
        Inl (InvalidHoursOfServiceError ''Duty hours cannot be negative'')
      else if js_lt timeUntilBreak (Fin 0) then
        Inl (InvalidHoursOfServiceError ''Time until break cannot be negative'')
      else if js_gt drivingHours dutyHours then
        Inl (InvalidHoursOfServiceError ''Driving hours cannot exceed duty hours'')
      else if js_gt drivingHours MAX_DRIVING_HOURS_PER_DAY then
        Inl (InvalidHoursOfServiceError ''Driving hours cannot exceed 11 hours per day'')
      else if js_gt dutyHours MAX_DUTY_HOURS_PER_DAY then
        Inl (InvalidHoursOfServiceError ''Duty hours cannot exceed 14 hours per day'')
      else Inr ())"

text \<open>The argument of \<open>HoursOfService.create\<close>.\<close>

record HoursOfServiceData =
  data_drivingHoursToday :: number
  data_dutyHoursToday :: number
  data_timeUntilBreakRequired :: number
  data_id :: "nat option"
  data_driverId :: "string option"

definition create_hos :: "HoursOfServiceData \<Rightarrow> error + HoursOfService" where
  "create_hos d =
     (case validateHours (data_drivingHoursToday d) (data_dutyHoursToday d)
             (data_timeUntilBreakRequired d) of
        Inl e \<Rightarrow> Inl e
      | Inr _ \<Rightarrow>
          Inr (new_HoursOfService (data_drivingHoursToday d) (data_dutyHoursToday d)
                 (data_timeUntilBreakRequired d) (data_id d) (data_driverId d)))"

definition createDefault :: "string \<Rightarrow> HoursOfService" where
  "createDefault drv =
     new_HoursOfService (Fin 0) (Fin 0) REQUIRED_BREAK_TIME None (Some drv)"

definition addDrivingTime :: "number \<Rightarrow> HoursOfService \<Rightarrow> (error + unit) \<times> HoursOfService" where
  "addDrivingTime hours h =
     (if js_lt hours (Fin 0) then
        (Inl (InvalidHoursOfServiceError ''Cannot add negative driving time''), h)
      else
        let newDrivingHours = js_add (drivingHoursToday h) hours;
            newDutyHours = js_add (dutyHoursToday h) hours;
            newTimeUntilBreak = Math_max (Fin 0) (js_sub (timeUntilBreakRequired h) hours)
        in case validateHours newDrivingHours newDutyHours newTimeUntilBreak of
             Inl e \<Rightarrow> (Inl e, h)
           | Inr _ \<Rightarrow>
               (Inr (), h\<lparr> drivingHoursToday := newDrivingHours,
                           dutyHoursToday := newDutyHours,
                           timeUntilBreakRequired := newTimeUntilBreak \<rparr>))"

definition addOnDutyTime :: "number \<Rightarrow> HoursOfService \<Rightarrow> (error + unit) \<times> HoursOfService" where
  "addOnDutyTime hours h =
     (if js_lt hours (Fin 0) then
        (Inl (InvalidHoursOfServiceError ''Cannot add negative duty time''), h)
      else
        let newDutyHours = js_add (dutyHoursToday h) hours
        in case validateHours (drivingHoursToday h) newDutyHours (timeUntilBreakRequired h) of
             Inl e \<Rightarrow> (Inl e, h)
           | Inr _ \<Rightarrow> (Inr (), h\<lparr> dutyHoursToday := newDutyHours \<rparr>))"

definition takeBreak :: "number \<Rightarrow> HoursOfService \<Rightarrow> (error + unit) \<times> HoursOfService" where
  "takeBreak hours h =
     (if js_lt hours (Fin 0) then
        (Inl (InvalidHoursOfServiceError ''Break time cannot be negative''), h)
      else (Inr (), h\<lparr> timeUntilBreakRequired := REQUIRED_BREAK_TIME \<rparr>))"

definition resetForNewDay :: "HoursOfService \<Rightarrow> HoursOfService" where
  "resetForNewDay h =
     h\<lparr> drivingHoursToday := Fin 0, dutyHoursToday := Fin 0,
        timeUntilBreakRequired := REQUIRED_BREAK_TIME \<rparr>"

text \<open>
  A caller's view of a counter over time: a sequence of method calls, each applied to the
  object the previous call left behind, whether that call returned or threw.
\<close>

datatype hos_call =
    AddDrivingTime number
  | AddOnDutyTime number
  | TakeBreak number
  | ResetForNewDay

fun call_hos :: "hos_call \<Rightarrow> HoursOfService \<Rightarrow> HoursOfService" where
  "call_hos (AddDrivingTime x) h = snd (addDrivingTime x h)"
| "call_hos (AddOnDutyTime x) h = snd (addOnDutyTime x h)"
| "call_hos (TakeBreak x) h = snd (takeBreak x h)"
| "call_hos ResetForNewDay h = resetForNewDay h"

fun calls_hos :: "hos_call list \<Rightarrow> HoursOfService \<Rightarrow> HoursOfService" where
  "calls_hos [] h = h"
| "calls_hos (c # cs) h = calls_hos cs (call_hos c h)"

text \<open>The call adds a number of hours that is \<open>NaN\<close>.\<close>

fun adds_nan :: "hos_call \<Rightarrow> bool" where
  "adds_nan (AddDrivingTime x) = (x = NaN)"
| "adds_nan (AddOnDutyTime x) = (x = NaN)"
| "adds_nan (TakeBreak x) = False"
| "adds_nan ResetForNewDay = False"

text \<open>
  The constraints of creation, as the specification lists them: a negative value, driving
  above duty, driving above 11, duty above 14.
\<close>

definition violates_constraints :: "number \<Rightarrow> number \<Rightarrow> number \<Rightarrow> bool" where
  "violates_constraints driving duty untilBreak \<longleftrightarrow>
     js_lt driving (Fin 0) \<or> js_lt duty (Fin 0) \<or> js_lt untilBreak (Fin 0) \<or>
     js_gt driving duty \<or> js_gt driving (Fin 11) \<or> js_gt duty (Fin 14)"

text \<open>
  The invariant of the specification: \<open>0 <= drivingHoursToday <= dutyHoursToday\<close>,
  \<open>drivingHoursToday <= 11\<close>, \<open>dutyHoursToday <= 14\<close> and \<open>timeUntilBreakRequired >= 0\<close>.
\<close>

definition hos_invariant :: "HoursOfService \<Rightarrow> bool" where
  "hos_invariant h \<longleftrightarrow>
     js_le (Fin 0) (drivingHoursToday h) \<and>
     js_le (drivingHoursToday h) (dutyHoursToday h) \<and>
     js_le (drivingHoursToday h) (Fin 11) \<and>
     js_le (dutyHoursToday h) (Fin 14) \<and>
     js_le (Fin 0) (timeUntilBreakRequired h)"

section \<open>Strings and dates\<close>

text \<open>
  Strings are lists of characters. A string is truthy when it is not empty; an optional
  field is truthy when it is present and, for a string, not empty.
\<close>

definition truthy :: "string option \<Rightarrow> bool" where
  "truthy v = (case v of None \<Rightarrow> False | Some s \<Rightarrow> s \<noteq> [])"

text \<open>
  \<open>String.prototype.toUpperCase\<close> on ASCII text: the letters a to z go to A to Z and
  every other character stays.
\<close>

definition toUpper_char :: "char \<Rightarrow> char" where
  "toUpper_char c =
     (case map_of (zip ''abcdefghijklmnopqrstuvwxyz'' ''ABCDEFGHIJKLMNOPQRSTUVWXYZ'') c of
        None \<Rightarrow> c
      | Some u \<Rightarrow> u)"

definition toUpperCase :: "string \<Rightarrow> string" where
  "toUpperCase s = map toUpper_char s"

definition is_digit :: "char \<Rightarrow> bool" where
  "is_digit c \<longleftrightarrow> c \<in> set ''0123456789''"

text \<open>The class \<open>\s\<close> of a regular expression, on characters below 256.\<close>

definition is_space :: "char \<Rightarrow> bool" where
  "is_space c \<longleftrightarrow>
     c \<in> {CHR 0x09, CHR 0x0A, CHR 0x0B, CHR 0x0C, CHR 0x0D, CHR 0x20, CHR 0xA0}"

text \<open>
  A \<open>Date\<close> is its time value, the milliseconds since 1970-01-01T00:00:00Z; the dates
  that a record stores are valid dates. Two dates compare as their time values do.
  \<open>civil_from_days\<close> is the conversion of a day number to year, month (1 to 12) and day
  of the month in the proleptic Gregorian calendar, the calendar of \<open>getFullYear\<close>,
  \<open>getMonth\<close> and \<open>getDate\<close>. \<open>getFullYear\<close> reads the year in UTC.
\<close>

type_synonym Date = int

definition msPerDay :: int where
  "msPerDay = 86400000"

definition Day :: "Date \<Rightarrow> int" where
  "Day t = t div msPerDay"

definition civil_from_days :: "int \<Rightarrow> int \<times> int \<times> int" where
  "civil_from_days z0 =
     (let z = z0 + 719468;
          era = z div 146097;
          doe = z - era * 146097;
          yoe = (doe - doe div 1460 + doe div 36524 - doe div 146096) div 365;
          y = yoe + era * 400;
          doy = doe - (365 * yoe + yoe div 4 - yoe div 100);
          mp = (5 * doy + 2) div 153;
          d = doy - (153 * mp + 2) div 5 + 1;
          m = (if mp < 10 then mp + 3 else mp - 9)
      in (if m \<le> 2 then y + 1 else y, m, d))"

definition getFullYear :: "Date \<Rightarrow> int" where
  "getFullYear t = fst (civil_from_days (Day t))"










section \<open>EmergencyContact\<close>

record EmergencyContact =
  id_ec :: "nat option"
  name :: string
  relationship :: string
  phone :: string
  driverId_ec :: "string option"

definition new_EmergencyContact ::
  "string \<Rightarrow> string \<Rightarrow> string \<Rightarrow> nat option \<Rightarrow> string option \<Rightarrow> EmergencyContact" where
  "new_EmergencyContact n r p i drv =
     \<lparr> id_ec = (case i of None \<Rightarrow> None | Some k \<Rightarrow> if k = 0 then None else Some k),
       name = n, relationship = r, phone = p,
       driverId_ec = (if truthy drv then drv else None) \<rparr>"

text \<open>
  \<open>isValid\<close> is \<open>Boolean(name && relationship && phone && phone.length >= 10)\<close>: each
  \<open>&&\<close> stops at the first falsy operand.
\<close>

definition isValid :: "EmergencyContact \<Rightarrow> bool" where
  "isValid c =
     (if name c = [] then False
      else if relationship c = [] then False
      else if phone c = [] then False
      else length (phone c) \<ge> 10)"

section \<open>Endorsement\<close>

record Endorsement =
  id_en :: "nat option"
  type_en :: string
  expiryDate :: "Date option"
  driverId_en :: "string option"

definition VALID_TYPES :: "string list" where
  "VALID_TYPES = [''H'', ''N'', ''P'', ''S'', ''T'', ''X'']"

definition new_Endorsement ::
  "string \<Rightarrow> Date option \<Rightarrow> nat option \<Rightarrow> string option \<Rightarrow> Endorsement" where
  "new_Endorsement t e i drv =
     \<lparr> id_en = (case i of None \<Rightarrow> None | Some k \<Rightarrow> if k = 0 then None else Some k),
       type_en = t, expiryDate = e,
       driverId_en = (if truthy drv then drv else None) \<rparr>"

definition validateType :: "string \<Rightarrow> error + unit" where
  "validateType t =
     (let upperType = toUpperCase t
      in if upperType \<notin> set VALID_TYPES then Inl (InvalidEndorsementTypeError t)
         else Inr ())"

text \<open>The argument of \<open>Endorsement.create\<close>.\<close>

record EndorsementData =
  data_type :: string
  data_expiryDate :: "Date option"
  data_id_en :: "nat option"
  data_driverId_en :: "string option"

definition create_en :: "EndorsementData \<Rightarrow> error + Endorsement" where
  "create_en d =
     (case validateType (data_type d) of
        Inl e \<Rightarrow> Inl e
      | Inr _ \<Rightarrow>
          Inr (new_Endorsement (toUpperCase (data_type d)) (data_expiryDate d)
                 (data_id_en d) (data_driverId_en d)))"

text \<open>
  The argument of \<open>Endorsement.update\<close> is a \<open>Partial<Endorsement>\<close>; the method reads its
  \<open>type\<close> and \<open>expiryDate\<close> only, each of which may be missing.
\<close>

record EndorsementPatch =
  patch_type :: "string option"
  patch_expiryDate :: "Date option"

definition update_en :: "EndorsementPatch \<Rightarrow> Endorsement \<Rightarrow> (error + unit) \<times> Endorsement" where
  "update_en p en =
     (let typed =
        (case patch_type p of
           None \<Rightarrow> Inr en
         | Some t \<Rightarrow>
             if t = [] then Inr en
             else (case validateType t of
                     Inl e \<Rightarrow> Inl e
                   | Inr _ \<Rightarrow> Inr (en\<lparr> type_en := toUpperCase t \<rparr>)))
      in case typed of
           Inl e \<Rightarrow> (Inl e, en)
         | Inr en1 \<Rightarrow>
             (Inr (), case patch_expiryDate p of
                        None \<Rightarrow> en1
                      | Some e \<Rightarrow> en1\<lparr> expiryDate := Some e \<rparr>))"

section \<open>Document\<close>

record Document =
  id_doc :: "string option"
  fileName :: string
  fileUrl :: string
  fileType :: string
  driverId_doc :: "string option"
  createdAt_doc :: "Date option"

definition VALID_TYPES_doc :: "string list" where
  "VALID_TYPES_doc =
     [''license'', ''medical_certificate'', ''twic_card'', ''training_certificate'',
      ''employment_verification'', ''background_check'', ''drug_test'', ''other'']"

definition validateType_doc :: "string \<Rightarrow> error + unit" where
  "validateType_doc t =
     (if t \<notin> set VALID_TYPES_doc then Inl (InvalidDocumentTypeError t) else Inr ())"

text \<open>The argument of \<open>Document.create\<close>.\<close>

record DocumentData =
  data_fileName :: string
  data_fileUrl :: string
  data_fileType :: string
  data_id_doc :: "string option"
  data_driverId_doc :: "string option"
  data_createdAt :: "Date option"

definition new_Document ::
  "string \<Rightarrow> string \<Rightarrow> string \<Rightarrow> string option \<Rightarrow> string option \<Rightarrow> Date option \<Rightarrow> Document" where
  "new_Document fname furl ftype i drv created =
     \<lparr> id_doc = (if truthy i then i else None), fileName = fname, fileUrl = furl,
       fileType = ftype, driverId_doc = (if truthy drv then drv else None),
       createdAt_doc = created \<rparr>"

text \<open>A missing creation time is replaced by the clock reading \<open>now\<close>.\<close>

definition create_doc :: "Date \<Rightarrow> DocumentData \<Rightarrow> error + Document" where
  "create_doc now d =
     (case validateType_doc (data_fileType d) of
        Inl e \<Rightarrow> Inl e
      | Inr _ \<Rightarrow>
          Inr (new_Document (data_fileName d) (data_fileUrl d) (data_fileType d)
                 (data_id_doc d) (data_driverId_doc d)
                 (case data_createdAt d of None \<Rightarrow> Some now | Some c \<Rightarrow> Some c)))"

section \<open>Driver\<close>

datatype DriverStatus =
    AVAILABLE | DRIVING | ON_BREAK | LOADING | UNLOADING | MAINTENANCE | AWAY | OFF_DUTY

text \<open>
  \<open>DriverType\<close> and \<open>EmploymentStatus\<close> are string enums that \<open>validateDriverData\<close>
  checks at run time, so their fields hold strings.
\<close>

definition DriverType_values :: "string list" where
  "DriverType_values = [''company'', ''owner_operator'', ''lease_purchase'']"

definition EmploymentStatus_ACTIVE :: string where
  "EmploymentStatus_ACTIVE = ''active''"

definition EmploymentStatus_values :: "string list" where
  "EmploymentStatus_values = [''active'', ''leave'', ''terminated'']"

text \<open>
  The fields that \<open>Driver.create\<close> takes as they are. The optional address, vehicle,
  avatar and employee-number fields, which no operation below reads, are left out.
\<close>

record DriverFields =
  firstName :: string
  lastName :: string
  dob :: Date
  phonePrimary :: string
  phoneSecondary :: "string option"
  email :: string
  licenseNumber :: string
  licenseState :: string
  licenseClass :: string
  licenseExpiry :: Date
  medCertExpiry :: Date
  twicExpiry :: "Date option"
  hireDate :: Date
  driverType :: string
  notes_drv :: "string option"

record Driver = DriverFields +
  id_drv :: "string option"
  employmentStatus :: string
  status :: DriverStatus
  loadId :: "string option"
  emergencyContacts :: "EmergencyContact list"
  endorsements :: "Endorsement list"
  documents :: "Document list"
  hoursOfService :: "HoursOfService option"
  createdAt :: Date
  updatedAt :: Date

text \<open>The argument of \<open>Driver.create\<close>: the fields above and the optional ones.\<close>

record DriverData = DriverFields +
  data_id_drv :: "string option"
  data_employmentStatus :: "string option"
  data_status :: "DriverStatus option"
  data_loadId :: "string option"
  data_emergencyContacts :: "EmergencyContact list option"
  data_endorsements :: "Endorsement list option"
  data_documents :: "Document list option"
  data_hoursOfService :: "HoursOfService option"

text \<open>
  The regular expression \<open>/^[^\s@]+@[^\s@]+\.[^\s@]+$/\<close>: a non-empty run free of spaces
  and \<open>@\<close>, one \<open>@\<close>, then such a run that has a dot with a character before it and a
  character after it.
\<close>

definition emailRegex_test :: "string \<Rightarrow> bool" where
  "emailRegex_test s =
     (let plain = (\<lambda>c. \<not> is_space c \<and> c \<noteq> CHR ''@'');
          localPart = takeWhile plain s
      in localPart \<noteq> [] \<and>
         (case dropWhile plain s of
            [] \<Rightarrow> False
          | c # domainPart \<Rightarrow>
              c = CHR ''@'' \<and> list_all plain domainPart \<and>
              CHR ''.'' \<in> set (butlast (tl domainPart))))"

text \<open>\<open>/^\d{10,15}$/\<close> on the digits of the phone number.\<close>

definition phoneRegex_test_digits :: "string \<Rightarrow> bool" where
  "phoneRegex_test_digits p =
     (let digits = filter is_digit p in 10 \<le> length digits \<and> length digits \<le> 15)"

text \<open>
  The loop over \<open>requiredFields\<close>: the first field whose value is falsy. A \<open>Date\<close> object
  is always truthy.
\<close>

definition missing_required :: "Driver \<Rightarrow> string option" where
  "missing_required data =
     map_option fst
       (find (\<lambda>(field, present). \<not> present)
          [(''firstName'', firstName data \<noteq> []),
           (''lastName'', lastName data \<noteq> []),
           (''dob'', True),
           (''phonePrimary'', phonePrimary data \<noteq> []),
           (''email'', email data \<noteq> []),
           (''licenseNumber'', licenseNumber data \<noteq> []),
           (''licenseState'', licenseState data \<noteq> []),
           (''licenseClass'', licenseClass data \<noteq> []),
           (''licenseExpiry'', True),
           (''medCertExpiry'', True),
           (''hireDate'', True),
           (''driverType'', driverType data \<noteq> [])])"

definition validateDriverData :: "Date \<Rightarrow> Driver \<Rightarrow> error + unit" where
  "validateDriverData now data =
     (case missing_required data of
        Some field \<Rightarrow> Inl (InvalidDriverDataError (''Missing required field: '' @ field))
      | None \<Rightarrow>
     if email data \<noteq> [] \<and> \<not> emailRegex_test (email data) then
       Inl (InvalidDriverDataError ''Invalid email format'')
     else if phonePrimary data \<noteq> [] \<and> \<not> phoneRegex_test_digits (phonePrimary data) then
       Inl (InvalidDriverDataError ''Invalid primary phone number format'')
     else if truthy (phoneSecondary data) \<and>
             \<not> phoneRegex_test_digits (the (phoneSecondary data)) then
       Inl (InvalidDriverDataError ''Invalid secondary phone number format'')
     else
       let minBirthYear = getFullYear now - 80;
           maxBirthYear = getFullYear now - 21;
           birthYear = getFullYear (dob data)
       in
     if birthYear < minBirthYear \<or> birthYear > maxBirthYear then
       Inl (InvalidDriverDataError
              ''Invalid date of birth (driver must be between 21 and 80 years old)'')
     else if licenseExpiry data < now then
       Inl (InvalidDriverDataError ''License is already expired'')
     else if medCertExpiry data < now then
       Inl (InvalidDriverDataError ''Medical certificate is already expired'')
     else if driverType data \<noteq> [] \<and> driverType data \<notin> set DriverType_values then
       Inl (InvalidDriverDataError (''Invalid driver type: '' @ driverType data))
     else if employmentStatus data \<noteq> [] \<and>
             employmentStatus data \<notin> set EmploymentStatus_values then
       Inl (InvalidDriverDataError
              (''Invalid employment status: '' @ employmentStatus data))
     else Inr ())"

text \<open>
  \<open>Driver.create\<close>: the defaults are filled in, the result is validated, and the
  constructor stamps both timestamps with the clock reading \<open>now\<close>.
\<close>

definition create_drv :: "Date \<Rightarrow> DriverData \<Rightarrow> error + Driver" where
  "create_drv now data =
     (let driverData =
        \<lparr> firstName = firstName data, lastName = lastName data, dob = dob data,
          phonePrimary = phonePrimary data, phoneSecondary = phoneSecondary data,
          email = email data, licenseNumber = licenseNumber data,
          licenseState = licenseState data, licenseClass = licenseClass data,
          licenseExpiry = licenseExpiry data, medCertExpiry = medCertExpiry data,
          twicExpiry = twicExpiry data, hireDate = hireDate data,
          driverType = driverType data, notes_drv = notes_drv data,
          id_drv = data_id_drv data,
          employmentStatus =
            (if truthy (data_employmentStatus data) then the (data_employmentStatus data)
             else EmploymentStatus_ACTIVE),
          status = (case data_status data of None \<Rightarrow> AVAILABLE | Some st \<Rightarrow> st),
          loadId = data_loadId data,
          emergencyContacts =
            (case data_emergencyContacts data of None \<Rightarrow> [] | Some cs \<Rightarrow> cs),
          endorsements = (case data_endorsements data of None \<Rightarrow> [] | Some es \<Rightarrow> es),
          documents = (case data_documents data of None \<Rightarrow> [] | Some ds \<Rightarrow> ds),
          hoursOfService = data_hoursOfService data,
          createdAt = now, updatedAt = now \<rparr>
      in case validateDriverData now driverData of
           Inl e \<Rightarrow> Inl e
         | Inr _ \<Rightarrow> Inr driverData)"

definition getFullName :: "Driver \<Rightarrow> string" where
  "getFullName d = firstName d @ '' '' @ lastName d"

definition isAvailable :: "Driver \<Rightarrow> bool" where
  "isAvailable d \<longleftrightarrow> status d = AVAILABLE"

definition updateStatus :: "Date \<Rightarrow> DriverStatus \<Rightarrow> Driver \<Rightarrow> Driver" where
  "updateStatus now st d = d\<lparr> status := st, updatedAt := now \<rparr>"

definition assignLoad :: "Date \<Rightarrow> string \<Rightarrow> Driver \<Rightarrow> Driver" where
  "assignLoad now l d = d\<lparr> loadId := Some l, status := DRIVING, updatedAt := now \<rparr>"

definition completeLoad :: "Date \<Rightarrow> Driver \<Rightarrow> Driver" where
  "completeLoad now d = d\<lparr> loadId := None, status := AVAILABLE, updatedAt := now \<rparr>"



section \<open>The database\<close>

text \<open>
  The tables of the Prisma schema. A driver row carries the rows of the other tables that
  refer to it, as every query of the repository includes them. Ids of contacts,
  endorsements and hours-of-service rows come from counters; ids of drivers and documents
  come from the database's generator of unique strings. The address, vehicle, avatar and
  employee-number columns are left out, as in \<open>Driver\<close>.
\<close>

record EmergencyContactRow =
  ecr_id :: nat
  ecr_name :: string
  ecr_relationship :: string
  ecr_phone :: string
  ecr_driverId :: string

record EndorsementRow =
  enr_id :: nat
  enr_type :: string
  enr_expiryDate :: "Date option"
  enr_driverId :: string

record DocumentRow =
  dcr_id :: string
  dcr_fileName :: string
  dcr_fileUrl :: string
  dcr_fileType :: string
  dcr_driverId :: string
  dcr_createdAt :: Date

record HoursOfServiceRow =
  hsr_id :: nat
  hsr_drivingHoursToday :: number
  hsr_dutyHoursToday :: number
  hsr_timeUntilBreakRequired :: number
  hsr_driverId :: string

record DriverRow = DriverFields +
  row_id :: string
  row_employmentStatus :: string
  row_status :: DriverStatus
  row_loadId :: "string option"
  row_emergencyContacts :: "EmergencyContactRow list"
  row_endorsements :: "EndorsementRow list"
  row_documents :: "DocumentRow list"
  row_hoursOfService :: "HoursOfServiceRow option"
  row_createdAt :: Date
  row_updatedAt :: Date

record Database =
  drivers :: "DriverRow list"
  uuid :: "nat \<Rightarrow> string"
  nextUuid :: nat
  nextContactId :: nat
  nextEndorsementId :: nat
  nextHoursId :: nat

section \<open>PrismaDriverRepository\<close>

text \<open>\<open>xs.map(f)\<close> for an \<open>f\<close> that may throw: the first exception ends the loop.\<close>

fun traverse :: "('a \<Rightarrow> error + 'b) \<Rightarrow> 'a list \<Rightarrow> error + 'b list" where
  "traverse f [] = Inr []"
| "traverse f (x # xs) =
     (case f x of
        Inl e \<Rightarrow> Inl e
      | Inr y \<Rightarrow> (case traverse f xs of Inl e \<Rightarrow> Inl e | Inr ys \<Rightarrow> Inr (y # ys)))"

text \<open>\<open>value || undefined\<close> for an optional string.\<close>

definition orUndefined :: "string option \<Rightarrow> string option" where
  "orUndefined v = (if truthy v then v else None)"

definition contactFromRow :: "EmergencyContactRow \<Rightarrow> EmergencyContact" where
  "contactFromRow c =
     new_EmergencyContact (ecr_name c) (ecr_relationship c) (ecr_phone c)
       (Some (ecr_id c)) (Some (ecr_driverId c))"

definition endorsementFromRow :: "EndorsementRow \<Rightarrow> error + Endorsement" where
  "endorsementFromRow e =
     create_en \<lparr> data_type = enr_type e, data_expiryDate = enr_expiryDate e,
                 data_id_en = Some (enr_id e), data_driverId_en = Some (enr_driverId e) \<rparr>"

definition documentFromRow :: "Date \<Rightarrow> DocumentRow \<Rightarrow> error + Document" where
  "documentFromRow now d =
     create_doc now
       \<lparr> data_fileName = dcr_fileName d, data_fileUrl = dcr_fileUrl d,
         data_fileType = dcr_fileType d, data_id_doc = Some (dcr_id d),
         data_driverId_doc = Some (dcr_driverId d),
         data_createdAt = Some (dcr_createdAt d) \<rparr>"

definition hoursFromRow :: "HoursOfServiceRow \<Rightarrow> error + HoursOfService" where
  "hoursFromRow h =
     create_hos \<lparr> data_drivingHoursToday = hsr_drivingHoursToday h,
                  data_dutyHoursToday = hsr_dutyHoursToday h,
                  data_timeUntilBreakRequired = hsr_timeUntilBreakRequired h,
                  data_id = Some (hsr_id h), data_driverId = Some (hsr_driverId h) \<rparr>"

text \<open>
  \<open>mapToDomainModel\<close> rebuilds the entity from a row with the factory methods, so every
  validation of \<open>Endorsement.create\<close>, \<open>Document.create\<close>, \<open>HoursOfService.create\<close> and
  \<open>Driver.create\<close> runs again, the last one against the clock reading \<open>now\<close>.
\<close>

definition mapToDomainModel :: "Date \<Rightarrow> DriverRow \<Rightarrow> error + Driver" where
  "mapToDomainModel now r =
     (let contacts = map contactFromRow (row_emergencyContacts r)
      in
      case traverse endorsementFromRow (row_endorsements r) of
        Inl e \<Rightarrow> Inl e
      | Inr ens \<Rightarrow>
      case traverse (documentFromRow now) (row_documents r) of
        Inl e \<Rightarrow> Inl e
      | Inr docs \<Rightarrow>
      case (case row_hoursOfService r of
              None \<Rightarrow> Inr None
            | Some h \<Rightarrow> (case hoursFromRow h of Inl e \<Rightarrow> Inl e | Inr x \<Rightarrow> Inr (Some x))) of
        Inl e \<Rightarrow> Inl e
      | Inr hos \<Rightarrow>
      create_drv now
        \<lparr> firstName = firstName r, lastName = lastName r, dob = dob r,
          phonePrimary = phonePrimary r, phoneSecondary = orUndefined (phoneSecondary r),
          email = email r, licenseNumber = licenseNumber r,
          licenseState = licenseState r, licenseClass = licenseClass r,
          licenseExpiry = licenseExpiry r, medCertExpiry = medCertExpiry r,
          twicExpiry = twicExpiry r, hireDate = hireDate r,
          driverType = driverType r, notes_drv = orUndefined (notes_drv r),
          data_id_drv = Some (row_id r),
          data_employmentStatus = Some (row_employmentStatus r),
          data_status = Some (row_status r),
          data_loadId = orUndefined (row_loadId r),
          data_emergencyContacts = Some contacts, data_endorsements = Some ens,
          data_documents = Some docs, data_hoursOfService = hos \<rparr>)"

text \<open>
  \<open>mapToPrismaModel\<close> keeps the scalar fields of the entity, an undefined value becoming
  null.
\<close>

record PrismaDriverData = DriverFields +
  pd_employmentStatus :: string
  pd_status :: DriverStatus
  pd_loadId :: "string option"

definition mapToPrismaModel :: "Driver \<Rightarrow> PrismaDriverData" where
  "mapToPrismaModel d =
     \<lparr> firstName = firstName d, lastName = lastName d, dob = dob d,
       phonePrimary = phonePrimary d, phoneSecondary = phoneSecondary d,
       email = email d, licenseNumber = licenseNumber d,
       licenseState = licenseState d, licenseClass = licenseClass d,
       licenseExpiry = licenseExpiry d, medCertExpiry = medCertExpiry d,
       twicExpiry = twicExpiry d, hireDate = hireDate d,
       driverType = driverType d, notes_drv = notes_drv d,
       pd_employmentStatus = employmentStatus d, pd_status = status d,
       pd_loadId = loadId d \<rparr>"

text \<open>The rows that a nested \<open>create\<close> or a \<open>createMany\<close> adds for a driver.\<close>

definition newContactRows ::
  "nat \<Rightarrow> string \<Rightarrow> EmergencyContact list \<Rightarrow> EmergencyContactRow list" where
  "newContactRows start drv cs =
     map (\<lambda>(k, c). \<lparr> ecr_id = k, ecr_name = name c, ecr_relationship = relationship c,
                     ecr_phone = phone c, ecr_driverId = drv \<rparr>)
       (enumerate start cs)"

definition newEndorsementRows ::
  "nat \<Rightarrow> string \<Rightarrow> Endorsement list \<Rightarrow> EndorsementRow list" where
  "newEndorsementRows start drv es =
     map (\<lambda>(k, e). \<lparr> enr_id = k, enr_type = type_en e, enr_expiryDate = expiryDate e,
                     enr_driverId = drv \<rparr>)
       (enumerate start es)"

definition newDocumentRows ::
  "Date \<Rightarrow> (nat \<Rightarrow> string) \<Rightarrow> nat \<Rightarrow> string \<Rightarrow> Document list \<Rightarrow> DocumentRow list" where
  "newDocumentRows now gen start drv ds =
     map (\<lambda>(k, d). \<lparr> dcr_id = gen k, dcr_fileName = fileName d, dcr_fileUrl = fileUrl d,
                     dcr_fileType = fileType d, dcr_driverId = drv,
                     dcr_createdAt = now \<rparr>)
       (enumerate start ds)"

fun replace_first :: "('a \<Rightarrow> bool) \<Rightarrow> 'a \<Rightarrow> 'a list \<Rightarrow> 'a list" where
  "replace_first P y [] = []"
| "replace_first P y (x # xs) = (if P x then y # xs else x # replace_first P y xs)"

definition findById :: "Date \<Rightarrow> string \<Rightarrow> Database \<Rightarrow> error + Driver option" where
  "findById now i db =
     (case find (\<lambda>r. row_id r = i) (drivers db) of
        None \<Rightarrow> Inr None
      | Some r \<Rightarrow> (case mapToDomainModel now r of Inl e \<Rightarrow> Inl e | Inr d \<Rightarrow> Inr (Some d)))"

definition findByEmail :: "Date \<Rightarrow> string \<Rightarrow> Database \<Rightarrow> error + Driver option" where
  "findByEmail now e db =
     (case find (\<lambda>r. email r = e) (drivers db) of
        None \<Rightarrow> Inr None
      | Some r \<Rightarrow> (case mapToDomainModel now r of Inl e \<Rightarrow> Inl e | Inr d \<Rightarrow> Inr (Some d)))"

text \<open>
  \<open>create\<close>. The schema declares \<open>email\<close> unique, so the database refuses a second row
  with the same email (error code P2002) and the transaction leaves nothing behind.
  Otherwise the row is stored with a fresh id, its contacts, endorsements and documents,
  and an hours-of-service row of zeros; the stored row is then mapped back to an entity.
\<close>

definition createdRow :: "Date \<Rightarrow> Driver \<Rightarrow> Database \<Rightarrow> DriverRow" where
  "createdRow now driver db =
     (let p = mapToPrismaModel driver;
          i = uuid db (nextUuid db)
      in \<lparr> firstName = firstName p, lastName = lastName p, dob = dob p,
           phonePrimary = phonePrimary p, phoneSecondary = phoneSecondary p,
           email = email p, licenseNumber = licenseNumber p,
           licenseState = licenseState p, licenseClass = licenseClass p,
           licenseExpiry = licenseExpiry p, medCertExpiry = medCertExpiry p,
           twicExpiry = twicExpiry p, hireDate = hireDate p,
           driverType = driverType p, notes_drv = notes_drv p,
           row_id = i, row_employmentStatus = pd_employmentStatus p,
           row_status = pd_status p, row_loadId = pd_loadId p,
           row_emergencyContacts =
             newContactRows (nextContactId db) i (emergencyContacts driver),
           row_endorsements =
             newEndorsementRows (nextEndorsementId db) i (endorsements driver),
           row_documents =
             newDocumentRows now (uuid db) (nextUuid db + 1) i (documents driver),
           row_hoursOfService =
             Some \<lparr> hsr_id = nextHoursId db, hsr_drivingHoursToday = Fin 0,
                    hsr_dutyHoursToday = Fin 0, hsr_timeUntilBreakRequired = Fin 0,
                    hsr_driverId = i \<rparr>,
           row_createdAt = now, row_updatedAt = now \<rparr>)"

definition repository_create :: "Date \<Rightarrow> Driver \<Rightarrow> Database \<Rightarrow> (error + Driver) \<times> Database" where
  "repository_create now driver db =
     (if email driver \<in> set (map email (drivers db)) then (Inl (PrismaError ''P2002''), db)
      else
        let created = createdRow now driver db
        in (mapToDomainModel now created,
            db\<lparr> drivers := drivers db @ [created],
                nextUuid := nextUuid db + 1 + length (documents driver),
                nextContactId := nextContactId db + length (emergencyContacts driver),
                nextEndorsementId := nextEndorsementId db + length (endorsements driver),
                nextHoursId := nextHoursId db + 1 \<rparr>))"

text \<open>
  \<open>update\<close>. Inside one transaction the scalar columns of the row with the driver's id
  are overwritten (error code P2025 when there is no such row, P2002 when the email
  changes to one that a stored row has), the contacts and the endorsements are deleted
  and created again, and every document of the entity is added as a new row. The row is
  read again and mapped back to an entity after the transaction has committed.
\<close>

definition updatedRow :: "Date \<Rightarrow> Driver \<Rightarrow> Database \<Rightarrow> DriverRow \<Rightarrow> DriverRow" where
  "updatedRow now driver db r =
     (let p = mapToPrismaModel driver
      in r\<lparr> firstName := firstName p, lastName := lastName p, dob := dob p,
            phonePrimary := phonePrimary p, phoneSecondary := phoneSecondary p,
            email := email p, licenseNumber := licenseNumber p,
            licenseState := licenseState p, licenseClass := licenseClass p,
            licenseExpiry := licenseExpiry p, medCertExpiry := medCertExpiry p,
            twicExpiry := twicExpiry p, hireDate := hireDate p,
            driverType := driverType p, notes_drv := notes_drv p,
            row_employmentStatus := pd_employmentStatus p,
            row_status := pd_status p, row_loadId := pd_loadId p,
            row_updatedAt := now,
            row_emergencyContacts :=
              newContactRows (nextContactId db) (row_id r) (emergencyContacts driver),
            row_endorsements :=
              newEndorsementRows (nextEndorsementId db) (row_id r) (endorsements driver),
            row_documents :=
              row_documents r @
              newDocumentRows now (uuid db) (nextUuid db) (row_id r) (documents driver) \<rparr>)"

definition repository_update :: "Date \<Rightarrow> Driver \<Rightarrow> Database \<Rightarrow> (error + Driver) \<times> Database" where
  "repository_update now driver db =
     (case id_drv driver of
        None \<Rightarrow> (Inl (PrismaError ''PrismaClientValidationError''), db)
      | Some i \<Rightarrow>
     case find (\<lambda>r. row_id r = i) (drivers db) of
        None \<Rightarrow> (Inl (PrismaError ''P2025''), db)
      | Some r \<Rightarrow>
     if email driver \<noteq> email r \<and> email driver \<in> set (map email (drivers db)) then
       (Inl (PrismaError ''P2002''), db)
     else
       let updated = updatedRow now driver db r
       in (mapToDomainModel now updated,
           db\<lparr> drivers := replace_first (\<lambda>x. row_id x = i) updated (drivers db),
               nextUuid := nextUuid db + length (documents driver),
               nextContactId := nextContactId db + length (emergencyContacts driver),
               nextEndorsementId := nextEndorsementId db + length (endorsements driver) \<rparr>))"

section \<open>DriverService\<close>

text \<open>
  Each method takes the database and returns its result, or the exception it throws,
  with the database as the call leaves it. \<open>now\<close> is the clock reading of the call.
\<close>

record MulterFile =
  originalname :: string
  path :: "string option"
  filename :: string
  mimetype :: string

text \<open>
  The argument of \<open>createDriver\<close>: the driver's fields, an optional employment status,
  emergency contacts as (name, relationship, phone) and endorsements as (type, expiry).
\<close>

record CreateDriverRequest = DriverFields +
  req_employmentStatus :: "string option"
  req_emergencyContacts :: "(string \<times> string \<times> string) list option"
  req_endorsements :: "(string \<times> Date option) list option"

definition DriverService_createDriver ::
  "Date \<Rightarrow> CreateDriverRequest \<Rightarrow> MulterFile list \<Rightarrow> Database \<Rightarrow>
   (error + Driver) \<times> Database" where
  "DriverService_createDriver now driverData files db =
     (case findByEmail now (email driverData) db of
        Inl e \<Rightarrow> (Inl e, db)
      | Inr (Some existingDriver) \<Rightarrow>
          (Inl (Error (''A driver with email '' @ email driverData @ '' already exists'')), db)
      | Inr None \<Rightarrow>
     case create_drv now
            \<lparr> firstName = firstName driverData, lastName = lastName driverData,
              dob = dob driverData, phonePrimary = phonePrimary driverData,
              phoneSecondary = phoneSecondary driverData, email = email driverData,
              licenseNumber = licenseNumber driverData,
              licenseState = licenseState driverData,
              licenseClass = licenseClass driverData,
              licenseExpiry = licenseExpiry driverData,
              medCertExpiry = medCertExpiry driverData,
              twicExpiry = twicExpiry driverData, hireDate = hireDate driverData,
              driverType = driverType driverData, notes_drv = notes_drv driverData,
              data_id_drv = None,
              data_employmentStatus = req_employmentStatus driverData,
              data_status = Some AVAILABLE, data_loadId = None,
              data_emergencyContacts = None, data_endorsements = None,
              data_documents = None, data_hoursOfService = None \<rparr> of
        Inl e \<Rightarrow> (Inl e, db)
      | Inr driver \<Rightarrow>
     let contacts = (case req_emergencyContacts driverData of None \<Rightarrow> [] | Some cs \<Rightarrow> cs);
         driver1 =
           (if contacts \<noteq> [] then
              driver\<lparr> emergencyContacts :=
                map (\<lambda>(n, r, p). new_EmergencyContact n r p None None) contacts \<rparr>
            else driver);
         rawEndorsements = (case req_endorsements driverData of None \<Rightarrow> [] | Some es \<Rightarrow> es)
     in
     case traverse
            (\<lambda>(t, e). create_en \<lparr> data_type = t, data_expiryDate = e, data_id_en = None,
                                  data_driverId_en = None \<rparr>) rawEndorsements of
        Inl e \<Rightarrow> (Inl e, db)
      | Inr created \<Rightarrow>
     let driver2 = (if rawEndorsements \<noteq> [] then driver1\<lparr> endorsements := created \<rparr>
                    else driver1)
     in
     case create_hos \<lparr> data_drivingHoursToday = Fin 0, data_dutyHoursToday = Fin 0,
                       data_timeUntilBreakRequired = Fin 0, data_id = None,
                       data_driverId = None \<rparr> of
        Inl e \<Rightarrow> (Inl e, db)
      | Inr hos \<Rightarrow>
     let driver3 = driver2\<lparr> hoursOfService := Some hos \<rparr>
     in
     case traverse
            (\<lambda>file. create_doc now
                      \<lparr> data_fileName = originalname file,
                        data_fileUrl =
                          (if truthy (path file) then the (path file) else filename file),
                        data_fileType = mimetype file, data_id_doc = None,
                        data_driverId_doc = None, data_createdAt = None \<rparr>) files of
        Inl e \<Rightarrow> (Inl e, db)
      | Inr docs \<Rightarrow>
     let driver4 = (if files \<noteq> [] then driver3\<lparr> documents := docs \<rparr> else driver3)
     in repository_create now driver4 db)"

definition DriverService_assignLoad ::
  "Date \<Rightarrow> string \<Rightarrow> string \<Rightarrow> Database \<Rightarrow> (error + Driver) \<times> Database" where
  "DriverService_assignLoad now driverId l db =
     (case findById now driverId db of
        Inl e \<Rightarrow> (Inl e, db)
      | Inr None \<Rightarrow> (Inl (Error (''Driver with ID '' @ driverId @ '' not found'')), db)
      | Inr (Some driver) \<Rightarrow>
          if \<not> isAvailable driver then
            (Inl (Error (''Driver '' @ getFullName driver @
                         '' is not available for assignment'')), db)
          else repository_update now (assignLoad now l driver) db)"

definition DriverService_completeLoad ::
  "Date \<Rightarrow> string \<Rightarrow> Database \<Rightarrow> (error + Driver) \<times> Database" where
  "DriverService_completeLoad now driverId db =
     (case findById now driverId db of
        Inl e \<Rightarrow> (Inl e, db)
      | Inr None \<Rightarrow> (Inl (Error (''Driver with ID '' @ driverId @ '' not found'')), db)
      | Inr (Some driver) \<Rightarrow>
          if \<not> truthy (loadId driver) then
            (Inl (Error (''Driver '' @ getFullName driver @
                         '' does not have a load assigned'')), db)
          else repository_update now (completeLoad now driver) db)"


section \<open>Notions of the specification\<close>

text \<open>
  The age of a person in completed years: the difference of the calendar years, less one
  when this year's birthday is still to come.
\<close>

definition age_in_years :: "Date \<Rightarrow> Date \<Rightarrow> int" where
  "age_in_years now birth =
     (case (civil_from_days (Day now), civil_from_days (Day birth)) of
        ((yn, mn, dn), (yb, mb, db)) \<Rightarrow>
          yn - yb - (if mn < mb \<or> (mn = mb \<and> dn < db) then 1 else 0))"

text \<open>The number of digits in a string.\<close>

definition digit_count :: "string \<Rightarrow> nat" where
  "digit_count s = length (filter is_digit s)"

section \<open>Rows and the entities they load as\<close>

text \<open>The fields of a driver that \<open>validateDriverData\<close> reads.\<close>

definition validated_fields ::
  "Driver \<Rightarrow> (string \<times> string \<times> Date \<times> string \<times> string option \<times> string) \<times>
             (string \<times> string \<times> string \<times> Date \<times> Date \<times> string \<times> string)" where
  "validated_fields d =
     ((firstName d, lastName d, dob d, phonePrimary d, phoneSecondary d, email d),
      (licenseNumber d, licenseState d, licenseClass d, licenseExpiry d, medCertExpiry d,
       driverType d, employmentStatus d))"

text \<open>
  The entity that \<open>mapToDomainModel\<close> returns for a row once the endorsements, the
  documents and the hours of service have been rebuilt and the validation has passed.
\<close>

definition loaded_driver ::
  "Date \<Rightarrow> DriverRow \<Rightarrow> Endorsement list \<Rightarrow> Document list \<Rightarrow> HoursOfService option \<Rightarrow> Driver" where
  "loaded_driver now r ens docs hos =
     \<lparr> firstName = firstName r, lastName = lastName r, dob = dob r,
       phonePrimary = phonePrimary r, phoneSecondary = orUndefined (phoneSecondary r),
       email = email r, licenseNumber = licenseNumber r,
       licenseState = licenseState r, licenseClass = licenseClass r,
       licenseExpiry = licenseExpiry r, medCertExpiry = medCertExpiry r,
       twicExpiry = twicExpiry r, hireDate = hireDate r,
       driverType = driverType r, notes_drv = orUndefined (notes_drv r),
       id_drv = Some (row_id r),
       employmentStatus =
         (if row_employmentStatus r \<noteq> [] then row_employmentStatus r
          else EmploymentStatus_ACTIVE),
       status = row_status r, loadId = orUndefined (row_loadId r),
       emergencyContacts = map contactFromRow (row_emergencyContacts r),
       endorsements = ens, documents = docs, hoursOfService = hos,
       createdAt = now, updatedAt = now \<rparr>"

definition loaded_hours :: "DriverRow \<Rightarrow> error + HoursOfService option" where
  "loaded_hours r =
     (case row_hoursOfService r of
        None \<Rightarrow> Inr None
      | Some h \<Rightarrow> (case hoursFromRow h of Inl e \<Rightarrow> Inl e | Inr x \<Rightarrow> Inr (Some x)))"

section \<open>Sample inputs\<close>

text \<open>
  The driver that the integration test \<open>hassan-driver.test.js\<close> posts, with the date of
  birth left open: licence and medical certificate expire on 2027-08-07, the hire date is
  2025-06-04, and the driver type is the controller's default.
\<close>

definition hassan :: "Date \<Rightarrow> DriverData" where
  "hassan birth =
     \<lparr> firstName = ''Hassan'', lastName = ''Kharal'', dob = birth,
       phonePrimary = ''519-980-6545'', phoneSecondary = None,
       email = ''hassan.kharal@example.com'', licenseNumber = ''HK876898'',
       licenseState = ''AK'', licenseClass = ''Class A'',
       licenseExpiry = 1817596800000, medCertExpiry = 1817596800000,
       twicExpiry = None, hireDate = 1748995200000, driverType = ''company'',
       notes_drv = None,
       data_id_drv = None, data_employmentStatus = None, data_status = None,
       data_loadId = None, data_emergencyContacts = None, data_endorsements = None,
       data_documents = None, data_hoursOfService = None \<rparr>"

text \<open>
  The same driver as a stored row with id \<open>d1\<close>, born on 1997-02-08 and created on
  2026-01-01, with the operational status and the load that the arguments give, one
  endorsement and the hours-of-service row that \<open>create\<close> stores.
\<close>

definition hassan_row :: "DriverStatus \<Rightarrow> string option \<Rightarrow> DriverRow" where
  "hassan_row st l =
     \<lparr> firstName = ''Hassan'', lastName = ''Kharal'', dob = 855360000000,
       phonePrimary = ''519-980-6545'', phoneSecondary = None,
       email = ''hassan.kharal@example.com'', licenseNumber = ''HK876898'',
       licenseState = ''AK'', licenseClass = ''Class A'',
       licenseExpiry = 1817596800000, medCertExpiry = 1817596800000,
       twicExpiry = None, hireDate = 1748995200000, driverType = ''company'',
       notes_drv = None,
       row_id = ''d1'', row_employmentStatus = ''active'', row_status = st,
       row_loadId = l, row_emergencyContacts = [],
       row_endorsements =
         [\<lparr> enr_id = 1, enr_type = ''H'', enr_expiryDate = None, enr_driverId = ''d1'' \<rparr>],
       row_documents = [],
       row_hoursOfService =
         Some \<lparr> hsr_id = 1, hsr_drivingHoursToday = Fin 0, hsr_dutyHoursToday = Fin 0,
                hsr_timeUntilBreakRequired = Fin 0, hsr_driverId = ''d1'' \<rparr>,
       row_createdAt = 1767225600000, row_updatedAt = 1767225600000 \<rparr>"

text \<open>The entity that the repository builds from that row at the clock reading \<open>now\<close>.\<close>

definition hassan_loaded :: "Date \<Rightarrow> DriverStatus \<Rightarrow> string option \<Rightarrow> Driver" where
  "hassan_loaded now st l =
     \<lparr> firstName = ''Hassan'', lastName = ''Kharal'', dob = 855360000000,
       phonePrimary = ''519-980-6545'', phoneSecondary = None,
       email = ''hassan.kharal@example.com'', licenseNumber = ''HK876898'',
       licenseState = ''AK'', licenseClass = ''Class A'',
       licenseExpiry = 1817596800000, medCertExpiry = 1817596800000,
       twicExpiry = None, hireDate = 1748995200000, driverType = ''company'',
       notes_drv = None,
       id_drv = Some ''d1'', employmentStatus = ''active'', status = st, loadId = l,
       emergencyContacts = [],
       endorsements =
         [\<lparr> id_en = Some 1, type_en = ''H'', expiryDate = None,
            driverId_en = Some ''d1'' \<rparr>],
       documents = [],
       hoursOfService =
         Some \<lparr> id_hos = Some 1, drivingHoursToday = Fin 0, dutyHoursToday = Fin 0,
                timeUntilBreakRequired = Fin 0, driverId_hos = Some ''d1'' \<rparr>,
       createdAt = now, updatedAt = now \<rparr>"

text \<open>A database that holds the given rows.\<close>

definition database_of :: "DriverRow list \<Rightarrow> Database" where
  "database_of rows =
     \<lparr> drivers = rows, uuid = (\<lambda>n. replicate (Suc n) CHR ''u''), nextUuid = 0,
       nextContactId = 1, nextEndorsementId = 2, nextHoursId = 2 \<rparr>"



text \<open>A request to create another person under an email address that the caller gives.\<close>

definition request_with_email :: "string \<Rightarrow> CreateDriverRequest" where
  "request_with_email e =
     \<lparr> firstName = ''Ann'', lastName = ''Lee'', dob = 631152000000,
       phonePrimary = ''313-555-0100'', phoneSecondary = None,
       email = e, licenseNumber = ''AL000001'',
       licenseState = ''MI'', licenseClass = ''Class B'',
       licenseExpiry = 1817596800000, medCertExpiry = 1817596800000,
       twicExpiry = None, hireDate = 1748995200000, driverType = ''owner_operator'',
       notes_drv = None,
       req_employmentStatus = None, req_emergencyContacts = None,
       req_endorsements = None \<rparr>"

section \<open>Properties of HoursOfService\<close>

lemma validateHours_Inr:
  "validateHours a b c = Inr () \<longleftrightarrow> \<not> violates_constraints a b c"
  by (auto simp: validateHours_def violates_constraints_def
        MAX_DRIVING_HOURS_PER_DAY_def MAX_DUTY_HOURS_PER_DAY_def)

lemma validateHours_Inl:
  "violates_constraints a b c \<Longrightarrow> \<exists>msg. validateHours a b c = Inl (InvalidHoursOfServiceError msg)"
  by (auto simp: validateHours_def violates_constraints_def
        MAX_DRIVING_HOURS_PER_DAY_def MAX_DUTY_HOURS_PER_DAY_def)

lemma validateHours_cases:
  "validateHours a b c = Inr () \<or> (\<exists>msg. validateHours a b c = Inl (InvalidHoursOfServiceError msg))"
  by (simp add: validateHours_def)

text \<open>
  Claim C2. \<open>addDrivingTime hours\<close> throws on negative hours. Otherwise it forms the
  candidate values \<open>drivingHoursToday + hours\<close>, \<open>dutyHoursToday + hours\<close> and
  \<open>max 0 (timeUntilBreakRequired - hours)\<close>. When the candidate violates a constraint of
  creation (a negative value, driving above duty, driving above 11, duty above 14) the call
  throws an \<open>InvalidHoursOfServiceError\<close> and the object is exactly as it was before the
  call; when it violates none, the three fields hold the candidate values.
\<close>

theorem addDrivingTime_atomic:
  "(js_lt hours (Fin 0) \<longrightarrow>
      (\<exists>msg. addDrivingTime hours h = (Inl (InvalidHoursOfServiceError msg), h))) \<and>
   (\<not> js_lt hours (Fin 0) \<and>
      violates_constraints (js_add (drivingHoursToday h) hours)
        (js_add (dutyHoursToday h) hours)
        (Math_max (Fin 0) (js_sub (timeUntilBreakRequired h) hours)) \<longrightarrow>
      (\<exists>msg. addDrivingTime hours h = (Inl (InvalidHoursOfServiceError msg), h))) \<and>
   (\<not> js_lt hours (Fin 0) \<and>
      \<not> violates_constraints (js_add (drivingHoursToday h) hours)
        (js_add (dutyHoursToday h) hours)
        (Math_max (Fin 0) (js_sub (timeUntilBreakRequired h) hours)) \<longrightarrow>
      addDrivingTime hours h =
        (Inr (), h\<lparr> drivingHoursToday := js_add (drivingHoursToday h) hours,
                    dutyHoursToday := js_add (dutyHoursToday h) hours,
                    timeUntilBreakRequired :=
                      Math_max (Fin 0) (js_sub (timeUntilBreakRequired h) hours) \<rparr>))"
proof (intro conjI impI)
  assume "js_lt hours (Fin 0)"
  then show "\<exists>msg. addDrivingTime hours h = (Inl (InvalidHoursOfServiceError msg), h)"
    by (simp add: addDrivingTime_def)
next
  let ?d = "js_add (drivingHoursToday h) hours" and ?u = "js_add (dutyHoursToday h) hours"
  let ?t = "Math_max (Fin 0) (js_sub (timeUntilBreakRequired h) hours)"
  assume a: "\<not> js_lt hours (Fin 0) \<and> violates_constraints ?d ?u ?t"
  then obtain msg where "validateHours ?d ?u ?t = Inl (InvalidHoursOfServiceError msg)"
    using validateHours_Inl by blast
  with a show "\<exists>msg. addDrivingTime hours h = (Inl (InvalidHoursOfServiceError msg), h)"
    by (simp add: addDrivingTime_def Let_def)
next
  let ?d = "js_add (drivingHoursToday h) hours" and ?u = "js_add (dutyHoursToday h) hours"
  let ?t = "Math_max (Fin 0) (js_sub (timeUntilBreakRequired h) hours)"
  assume a: "\<not> js_lt hours (Fin 0) \<and> \<not> violates_constraints ?d ?u ?t"
  then have "validateHours ?d ?u ?t = Inr ()"
    by (simp add: validateHours_Inr)
  with a show "addDrivingTime hours h =
      (Inr (), h\<lparr> drivingHoursToday := ?d, dutyHoursToday := ?u,
                  timeUntilBreakRequired := ?t \<rparr>)"
    by (simp add: addDrivingTime_def Let_def)
qed

theorem addDrivingTime_atomic_witness:
  "(\<exists>msg. addDrivingTime (Fin (- 1))
       \<lparr> id_hos = None, drivingHoursToday = Fin 10, dutyHoursToday = Fin 12,
         timeUntilBreakRequired = Fin 0.5, driverId_hos = None \<rparr> =
       (Inl (InvalidHoursOfServiceError msg),
        \<lparr> id_hos = None, drivingHoursToday = Fin 10, dutyHoursToday = Fin 12,
          timeUntilBreakRequired = Fin 0.5, driverId_hos = None \<rparr>)) \<and>
   (\<exists>msg. addDrivingTime (Fin 2)
       \<lparr> id_hos = None, drivingHoursToday = Fin 10, dutyHoursToday = Fin 12,
         timeUntilBreakRequired = Fin 0.5, driverId_hos = None \<rparr> =
       (Inl (InvalidHoursOfServiceError msg),
        \<lparr> id_hos = None, drivingHoursToday = Fin 10, dutyHoursToday = Fin 12,
          timeUntilBreakRequired = Fin 0.5, driverId_hos = None \<rparr>)) \<and>
   addDrivingTime (Fin 1)
       \<lparr> id_hos = None, drivingHoursToday = Fin 10, dutyHoursToday = Fin 12,
         timeUntilBreakRequired = Fin 0.5, driverId_hos = None \<rparr> =
     (Inr (), \<lparr> id_hos = None, drivingHoursToday = Fin 11, dutyHoursToday = Fin 13,
                timeUntilBreakRequired = Fin 0, driverId_hos = None \<rparr>) \<and>
   addDrivingTime NaN
       \<lparr> id_hos = None, drivingHoursToday = Fin 10, dutyHoursToday = Fin 12,
         timeUntilBreakRequired = Fin 0.5, driverId_hos = None \<rparr> =
     (Inr (), \<lparr> id_hos = None, drivingHoursToday = NaN, dutyHoursToday = NaN,
                timeUntilBreakRequired = NaN, driverId_hos = None \<rparr>)"
  using
    addDrivingTime_atomic [of "Fin (- 1)" "\<lparr> id_hos = None, drivingHoursToday = Fin 10,
      dutyHoursToday = Fin 12, timeUntilBreakRequired = Fin 0.5, driverId_hos = None \<rparr>"]
    addDrivingTime_atomic [of "Fin 2" "\<lparr> id_hos = None, drivingHoursToday = Fin 10,
      dutyHoursToday = Fin 12, timeUntilBreakRequired = Fin 0.5, driverId_hos = None \<rparr>"]
    addDrivingTime_atomic [of "Fin 1" "\<lparr> id_hos = None, drivingHoursToday = Fin 10,
      dutyHoursToday = Fin 12, timeUntilBreakRequired = Fin 0.5, driverId_hos = None \<rparr>"]
    addDrivingTime_atomic [of NaN "\<lparr> id_hos = None, drivingHoursToday = Fin 10,
      dutyHoursToday = Fin 12, timeUntilBreakRequired = Fin 0.5, driverId_hos = None \<rparr>"]
  by (simp add: violates_constraints_def js_gt_def js_sub_def Math_max_def)

text \<open>
  Claim C7. \<open>takeBreak hours\<close> throws on negative hours and leaves the object as it was.
  For every other value of \<open>hours\<close> it returns and the break countdown is the required
  break length 0.5, whatever \<open>hours\<close> is. Driving and duty hours are the same after the
  call as before it, in both cases.
\<close>

theorem takeBreak_frame:
  "(js_lt hours (Fin 0) \<longrightarrow>
      (\<exists>msg. takeBreak hours h = (Inl (InvalidHoursOfServiceError msg), h))) \<and>
   (\<not> js_lt hours (Fin 0) \<longrightarrow>
      fst (takeBreak hours h) = Inr () \<and>
      timeUntilBreakRequired (snd (takeBreak hours h)) = Fin 0.5) \<and>
   drivingHoursToday (snd (takeBreak hours h)) = drivingHoursToday h \<and>
   dutyHoursToday (snd (takeBreak hours h)) = dutyHoursToday h"
  by (simp add: takeBreak_def REQUIRED_BREAK_TIME_def)

theorem takeBreak_frame_witness:
  "(\<exists>msg. takeBreak (Fin (- 2))
       \<lparr> id_hos = None, drivingHoursToday = Fin 4, dutyHoursToday = Fin 6,
         timeUntilBreakRequired = Fin 0, driverId_hos = None \<rparr> =
       (Inl (InvalidHoursOfServiceError msg),
        \<lparr> id_hos = None, drivingHoursToday = Fin 4, dutyHoursToday = Fin 6,
          timeUntilBreakRequired = Fin 0, driverId_hos = None \<rparr>)) \<and>
   takeBreak (Fin 3)
       \<lparr> id_hos = None, drivingHoursToday = Fin 4, dutyHoursToday = Fin 6,
         timeUntilBreakRequired = Fin 0, driverId_hos = None \<rparr> =
     (Inr (), \<lparr> id_hos = None, drivingHoursToday = Fin 4, dutyHoursToday = Fin 6,
                timeUntilBreakRequired = Fin 0.5, driverId_hos = None \<rparr>)"
  using
    takeBreak_frame [of "Fin (- 2)" "\<lparr> id_hos = None, drivingHoursToday = Fin 4,
      dutyHoursToday = Fin 6, timeUntilBreakRequired = Fin 0, driverId_hos = None \<rparr>"]
    takeBreak_frame [of "Fin 3" "\<lparr> id_hos = None, drivingHoursToday = Fin 4,
      dutyHoursToday = Fin 6, timeUntilBreakRequired = Fin 0, driverId_hos = None \<rparr>"]
  by (simp add: takeBreak_def REQUIRED_BREAK_TIME_def)

subsection \<open>The invariant of the counter\<close>

text \<open>
  Claim C10, as stated, fails. Every guard of \<open>validateHours\<close> is a comparison, and a
  comparison with \<open>NaN\<close> is false: \<open>create\<close> returns a counter whose three fields are
  \<open>NaN\<close>, \<open>addDrivingTime\<close> with \<open>NaN\<close> on a default counter commits \<open>NaN\<close> to all
  three fields, and \<open>addOnDutyTime\<close> with \<open>NaN\<close> commits \<open>NaN\<close> to the duty hours. None
  of these counters satisfies the invariant.
\<close>

theorem hos_nan_counterexample:
  "create_hos \<lparr> data_drivingHoursToday = NaN, data_dutyHoursToday = NaN,
       data_timeUntilBreakRequired = NaN, data_id = None, data_driverId = None \<rparr> =
     Inr \<lparr> id_hos = None, drivingHoursToday = NaN, dutyHoursToday = NaN,
           timeUntilBreakRequired = NaN, driverId_hos = None \<rparr> \<and>
   \<not> hos_invariant \<lparr> id_hos = None, drivingHoursToday = NaN, dutyHoursToday = NaN,
           timeUntilBreakRequired = NaN, driverId_hos = None \<rparr> \<and>
   calls_hos [AddDrivingTime NaN] (createDefault ''d1'') =
     \<lparr> id_hos = None, drivingHoursToday = NaN, dutyHoursToday = NaN,
       timeUntilBreakRequired = NaN, driverId_hos = Some ''d1'' \<rparr> \<and>
   \<not> hos_invariant (calls_hos [AddDrivingTime NaN] (createDefault ''d1'')) \<and>
   calls_hos [AddOnDutyTime NaN] (createDefault ''d1'') =
     \<lparr> id_hos = None, drivingHoursToday = Fin 0, dutyHoursToday = NaN,
       timeUntilBreakRequired = Fin 0.5, driverId_hos = Some ''d1'' \<rparr> \<and>
   \<not> hos_invariant (calls_hos [AddOnDutyTime NaN] (createDefault ''d1''))"
  by (simp add: create_hos_def validateHours_def new_HoursOfService_def js_gt_def
        hos_invariant_def js_le_def createDefault_def addDrivingTime_def addOnDutyTime_def
        js_sub_def Math_max_def REQUIRED_BREAK_TIME_def MAX_DRIVING_HOURS_PER_DAY_def
        MAX_DUTY_HOURS_PER_DAY_def)

text \<open>
  The values that pass \<open>validateHours\<close> and are not \<open>NaN\<close> satisfy the invariant, and so
  do the candidates that \<open>addDrivingTime\<close> and \<open>addOnDutyTime\<close> commit when their
  argument is not \<open>NaN\<close>.
\<close>

lemma valid_values_invariant:
  "\<not> violates_constraints a b c \<Longrightarrow> a \<noteq> NaN \<Longrightarrow> b \<noteq> NaN \<Longrightarrow> c \<noteq> NaN \<Longrightarrow>
   js_le (Fin 0) a \<and> js_le a b \<and> js_le a (Fin 11) \<and> js_le b (Fin 14) \<and> js_le (Fin 0) c"
  by (cases a; cases b; cases c) (auto simp: violates_constraints_def js_le_def js_gt_def)

lemma create_hos_invariant:
  assumes "create_hos d = Inr h"
    and "data_drivingHoursToday d \<noteq> NaN" and "data_dutyHoursToday d \<noteq> NaN"
    and "data_timeUntilBreakRequired d \<noteq> NaN"
  shows "hos_invariant h"
proof -
  let ?a = "data_drivingHoursToday d" and ?b = "data_dutyHoursToday d"
  let ?c = "data_timeUntilBreakRequired d"
  from assms(1) have v: "validateHours ?a ?b ?c = Inr ()"
    using validateHours_cases [of ?a ?b ?c] by (auto simp: create_hos_def)
  with assms(1) have "h = new_HoursOfService ?a ?b ?c (data_id d) (data_driverId d)"
    by (simp add: create_hos_def)
  moreover from v have "\<not> violates_constraints ?a ?b ?c"
    by (simp add: validateHours_Inr)
  ultimately show ?thesis
    using valid_values_invariant [of ?a ?b ?c] assms(2-4)
    by (simp add: hos_invariant_def new_HoursOfService_def)
qed

lemma createDefault_invariant: "hos_invariant (createDefault drv)"
  by (simp add: hos_invariant_def createDefault_def new_HoursOfService_def
        REQUIRED_BREAK_TIME_def js_le_def)

lemma driving_candidates_not_nan:
  assumes "js_le (Fin 0) d" and "js_le d (Fin 11)" and "js_le (Fin 0) u" and "js_le (Fin 0) t"
    and "x \<noteq> NaN" and "\<not> js_lt x (Fin 0)" and "\<not> js_gt (js_add d x) (Fin 11)"
  shows "js_add d x \<noteq> NaN \<and> js_add u x \<noteq> NaN \<and> Math_max (Fin 0) (js_sub t x) \<noteq> NaN"
  using assms
  by (cases d; cases u; cases t; cases x)
    (auto simp: js_le_def js_gt_def js_sub_def Math_max_def)

lemma addDrivingTime_invariant:
  assumes "hos_invariant h" and "x \<noteq> NaN"
  shows "hos_invariant (snd (addDrivingTime x h))"
proof (cases "js_lt x (Fin 0)")
  case True
  with assms show ?thesis by (simp add: addDrivingTime_def)
next
  case False
  let ?d = "js_add (drivingHoursToday h) x" and ?u = "js_add (dutyHoursToday h) x"
  let ?t = "Math_max (Fin 0) (js_sub (timeUntilBreakRequired h) x)"
  show ?thesis
  proof (cases "violates_constraints ?d ?u ?t")
    case True
    then obtain msg where "validateHours ?d ?u ?t = Inl (InvalidHoursOfServiceError msg)"
      using validateHours_Inl by blast
    with False assms show ?thesis by (simp add: addDrivingTime_def Let_def)
  next
    case nv: False
    then have v: "validateHours ?d ?u ?t = Inr ()" by (simp add: validateHours_Inr)
    from nv have g: "\<not> js_gt ?d (Fin 11)" by (simp add: violates_constraints_def)
    have u0: "js_le (Fin 0) (dutyHoursToday h)"
      using assms(1)
      by (cases "drivingHoursToday h"; cases "dutyHoursToday h")
        (auto simp: hos_invariant_def js_le_def)
    have "?d \<noteq> NaN \<and> ?u \<noteq> NaN \<and> ?t \<noteq> NaN"
    proof (rule driving_candidates_not_nan)
      show "js_le (Fin 0) (drivingHoursToday h)" "js_le (drivingHoursToday h) (Fin 11)"
        "js_le (Fin 0) (timeUntilBreakRequired h)"
        using assms(1) by (simp_all add: hos_invariant_def)
    qed (use assms(2) False g u0 in simp_all)
    with nv have "js_le (Fin 0) ?d \<and> js_le ?d ?u \<and> js_le ?d (Fin 11) \<and>
        js_le ?u (Fin 14) \<and> js_le (Fin 0) ?t"
      using valid_values_invariant by blast
    with False v show ?thesis
      by (simp add: addDrivingTime_def Let_def hos_invariant_def)
  qed
qed

lemma addOnDutyTime_invariant:
  assumes "hos_invariant h" and "x \<noteq> NaN"
  shows "hos_invariant (snd (addOnDutyTime x h))"
proof (cases "js_lt x (Fin 0)")
  case True
  with assms show ?thesis by (simp add: addOnDutyTime_def)
next
  case False
  let ?d = "drivingHoursToday h" and ?u = "js_add (dutyHoursToday h) x"
  let ?t = "timeUntilBreakRequired h"
  show ?thesis
  proof (cases "violates_constraints ?d ?u ?t")
    case True
    then obtain msg where "validateHours ?d ?u ?t = Inl (InvalidHoursOfServiceError msg)"
      using validateHours_Inl by blast
    with False assms show ?thesis by (simp add: addOnDutyTime_def Let_def)
  next
    case nv: False
    then have v: "validateHours ?d ?u ?t = Inr ()" by (simp add: validateHours_Inr)
    have "?d \<noteq> NaN \<and> ?u \<noteq> NaN \<and> ?t \<noteq> NaN"
      using assms False
      by (cases "drivingHoursToday h"; cases "dutyHoursToday h";
          cases "timeUntilBreakRequired h"; cases x)
        (auto simp: hos_invariant_def js_le_def)
    with nv have "js_le (Fin 0) ?d \<and> js_le ?d ?u \<and> js_le ?d (Fin 11) \<and>
        js_le ?u (Fin 14) \<and> js_le (Fin 0) ?t"
      using valid_values_invariant by blast
    with False v show ?thesis
      by (simp add: addOnDutyTime_def Let_def hos_invariant_def)
  qed
qed

lemma takeBreak_invariant: "hos_invariant h \<Longrightarrow> hos_invariant (snd (takeBreak x h))"
  by (simp add: takeBreak_def hos_invariant_def REQUIRED_BREAK_TIME_def js_le_def)

lemma resetForNewDay_invariant: "hos_invariant (resetForNewDay h)"
  by (simp add: resetForNewDay_def hos_invariant_def REQUIRED_BREAK_TIME_def js_le_def)

lemma call_hos_invariant:
  "hos_invariant h \<Longrightarrow> \<not> adds_nan c \<Longrightarrow> hos_invariant (call_hos c h)"
  by (cases c)
    (simp_all add: addDrivingTime_invariant addOnDutyTime_invariant takeBreak_invariant
       resetForNewDay_invariant)

lemma calls_hos_invariant:
  "hos_invariant h \<Longrightarrow> \<forall>c\<in>set cs. \<not> adds_nan c \<Longrightarrow> hos_invariant (calls_hos cs h)"
  by (induction cs arbitrary: h) (simp_all add: call_hos_invariant)

text \<open>
  Claim C10, amended. Start from a counter that \<open>create\<close> returned for values none of
  which is \<open>NaN\<close>, or from \<open>createDefault\<close>, and make any sequence of \<open>addDrivingTime\<close>,
  \<open>addOnDutyTime\<close>, \<open>takeBreak\<close> and \<open>resetForNewDay\<close> calls in which no
  \<open>addDrivingTime\<close> and no \<open>addOnDutyTime\<close> is given \<open>NaN\<close>, a call that throws leaving
  the object as it was. The counter then satisfies
  \<open>0 <= drivingHoursToday <= dutyHoursToday\<close>, \<open>drivingHoursToday <= 11\<close>,
  \<open>dutyHoursToday <= 14\<close> and \<open>timeUntilBreakRequired >= 0\<close>.
\<close>

theorem hos_reachable_invariant:
  "(create_hos d = Inr h \<and> data_drivingHoursToday d \<noteq> NaN \<and>
    data_dutyHoursToday d \<noteq> NaN \<and> data_timeUntilBreakRequired d \<noteq> NaN \<and>
    (\<forall>c\<in>set cs. \<not> adds_nan c) \<longrightarrow> hos_invariant (calls_hos cs h)) \<and>
   ((\<forall>c\<in>set cs. \<not> adds_nan c) \<longrightarrow> hos_invariant (calls_hos cs (createDefault drv)))"
proof (intro conjI impI)
  assume "create_hos d = Inr h \<and> data_drivingHoursToday d \<noteq> NaN \<and>
    data_dutyHoursToday d \<noteq> NaN \<and> data_timeUntilBreakRequired d \<noteq> NaN \<and>
    (\<forall>c\<in>set cs. \<not> adds_nan c)"
  then show "hos_invariant (calls_hos cs h)"
    using calls_hos_invariant create_hos_invariant by blast
next
  assume "\<forall>c\<in>set cs. \<not> adds_nan c"
  then show "hos_invariant (calls_hos cs (createDefault drv))"
    using calls_hos_invariant createDefault_invariant by blast
qed

theorem hos_reachable_invariant_witness:
  "create_hos \<lparr> data_drivingHoursToday = Fin 3, data_dutyHoursToday = Fin 5,
       data_timeUntilBreakRequired = PInf, data_id = Some 7,
       data_driverId = Some ''d1'' \<rparr> =
     Inr \<lparr> id_hos = Some 7, drivingHoursToday = Fin 3, dutyHoursToday = Fin 5,
           timeUntilBreakRequired = PInf, driverId_hos = Some ''d1'' \<rparr> \<and>
   hos_invariant
     (calls_hos [AddDrivingTime (Fin 8), AddDrivingTime (Fin 1), TakeBreak NaN,
                 AddOnDutyTime PInf, AddDrivingTime PInf]
        \<lparr> id_hos = Some 7, drivingHoursToday = Fin 3, dutyHoursToday = Fin 5,
          timeUntilBreakRequired = PInf, driverId_hos = Some ''d1'' \<rparr>) \<and>
   hos_invariant
     (calls_hos [AddDrivingTime (Fin 12), ResetForNewDay] (createDefault ''d1''))"
proof -
  have c: "create_hos \<lparr> data_drivingHoursToday = Fin 3, data_dutyHoursToday = Fin 5,
       data_timeUntilBreakRequired = PInf, data_id = Some 7,
       data_driverId = Some ''d1'' \<rparr> =
     Inr \<lparr> id_hos = Some 7, drivingHoursToday = Fin 3, dutyHoursToday = Fin 5,
           timeUntilBreakRequired = PInf, driverId_hos = Some ''d1'' \<rparr>"
    by (simp add: create_hos_def validateHours_def new_HoursOfService_def js_gt_def
          MAX_DRIVING_HOURS_PER_DAY_def MAX_DUTY_HOURS_PER_DAY_def)
  have n1: "\<forall>c\<in>set [AddDrivingTime (Fin 8), AddDrivingTime (Fin 1), TakeBreak NaN,
      AddOnDutyTime PInf, AddDrivingTime PInf]. \<not> adds_nan c"
    by simp
  have n2: "\<forall>c\<in>set [AddDrivingTime (Fin 12), ResetForNewDay]. \<not> adds_nan c"
    by simp
  show ?thesis
    using c n1 n2
      hos_reachable_invariant [of
        "\<lparr> data_drivingHoursToday = Fin 3, data_dutyHoursToday = Fin 5,
           data_timeUntilBreakRequired = PInf, data_id = Some 7,
           data_driverId = Some ''d1'' \<rparr>"
        "\<lparr> id_hos = Some 7, drivingHoursToday = Fin 3, dutyHoursToday = Fin 5,
           timeUntilBreakRequired = PInf, driverId_hos = Some ''d1'' \<rparr>"
        "[AddDrivingTime (Fin 8), AddDrivingTime (Fin 1), TakeBreak NaN,
          AddOnDutyTime PInf, AddDrivingTime PInf]" "''d1''"]
      hos_reachable_invariant [of
        "\<lparr> data_drivingHoursToday = Fin 3, data_dutyHoursToday = Fin 5,
           data_timeUntilBreakRequired = PInf, data_id = Some 7,
           data_driverId = Some ''d1'' \<rparr>"
        "\<lparr> id_hos = Some 7, drivingHoursToday = Fin 3, dutyHoursToday = Fin 5,
           timeUntilBreakRequired = PInf, driverId_hos = Some ''d1'' \<rparr>"
        "[AddDrivingTime (Fin 12), ResetForNewDay]" "''d1''"]
    by simp
qed

section \<open>Properties of EmergencyContact and Endorsement\<close>

text \<open>
  Claim C5, as stated, fails: \<open>isValid\<close> tests the length of the phone string, not the
  number of digits in it. A contact whose phone is ten letters is valid and has no digit.
\<close>

theorem isValid_digits_counterexample:
  "isValid \<lparr> id_ec = None, name = ''Ann Lee'', relationship = ''spouse'',
             phone = ''abcdefghij'', driverId_ec = None \<rparr> \<and>
   \<not> 10 \<le> digit_count ''abcdefghij''"
  by (simp add: isValid_def digit_count_def is_digit_def)

text \<open>
  Claim C5, amended. \<open>isValid\<close> returns true if and only if name, relationship and phone
  are all non-empty and the phone string has at least 10 characters.
\<close>

theorem isValid_length:
  "isValid c \<longleftrightarrow>
     name c \<noteq> [] \<and> relationship c \<noteq> [] \<and> phone c \<noteq> [] \<and> 10 \<le> length (phone c)"
  by (simp add: isValid_def)

theorem isValid_length_witness:
  "isValid \<lparr> id_ec = None, name = ''Ann Lee'', relationship = ''spouse'',
             phone = ''519-980-65'', driverId_ec = None \<rparr> \<and>
   \<not> isValid \<lparr> id_ec = None, name = ''Ann Lee'', relationship = ''spouse'',
               phone = ''519980654'', driverId_ec = None \<rparr> \<and>
   \<not> isValid \<lparr> id_ec = None, name = '''', relationship = ''spouse'',
               phone = ''5199806545'', driverId_ec = None \<rparr>"
  using
    isValid_length [of "\<lparr> id_ec = None, name = ''Ann Lee'', relationship = ''spouse'',
      phone = ''519-980-65'', driverId_ec = None \<rparr>"]
    isValid_length [of "\<lparr> id_ec = None, name = ''Ann Lee'', relationship = ''spouse'',
      phone = ''519980654'', driverId_ec = None \<rparr>"]
    isValid_length [of "\<lparr> id_ec = None, name = '''', relationship = ''spouse'',
      phone = ''5199806545'', driverId_ec = None \<rparr>"]
  by simp

lemma validateType_iff:
  "validateType t = (if toUpperCase t \<in> {''H'', ''N'', ''P'', ''S'', ''T'', ''X''} then Inr ()
                     else Inl (InvalidEndorsementTypeError t))"
  by (simp add: validateType_def VALID_TYPES_def Let_def)

text \<open>
  Claim C9, as stated, fails for \<open>update\<close>: the empty string is not one of the six types,
  yet an update that carries it returns without an error and changes nothing.
\<close>

theorem update_en_empty_type_counterexample:
  "update_en \<lparr> patch_type = Some '''', patch_expiryDate = None \<rparr>
     \<lparr> id_en = Some 1, type_en = ''H'', expiryDate = None, driverId_en = Some ''d1'' \<rparr> =
     (Inr (), \<lparr> id_en = Some 1, type_en = ''H'', expiryDate = None,
                driverId_en = Some ''d1'' \<rparr>) \<and>
   toUpperCase '''' \<notin> {''H'', ''N'', ''P'', ''S'', ''T'', ''X''}"
  by (simp add: update_en_def toUpperCase_def)

text \<open>
  Claim C9, amended. \<open>Endorsement.create\<close> accepts a type exactly when its uppercase form
  is one of H, N, P, S, T, X, stores that uppercase form, and throws an
  \<open>InvalidEndorsementTypeError\<close> otherwise. \<open>update\<close> does the same with a type that is
  present and not empty, leaving the endorsement as it was when it throws; an update whose
  type is missing or empty returns and keeps the stored type.
\<close>

theorem endorsement_type_normalized:
  "(toUpperCase (data_type d) \<in> {''H'', ''N'', ''P'', ''S'', ''T'', ''X''} \<longrightarrow>
      (\<exists>en. create_en d = Inr en \<and> type_en en = toUpperCase (data_type d))) \<and>
   (toUpperCase (data_type d) \<notin> {''H'', ''N'', ''P'', ''S'', ''T'', ''X''} \<longrightarrow>
      create_en d = Inl (InvalidEndorsementTypeError (data_type d))) \<and>
   (patch_type p = Some t \<and> t \<noteq> [] \<and>
    toUpperCase t \<in> {''H'', ''N'', ''P'', ''S'', ''T'', ''X''} \<longrightarrow>
      fst (update_en p en) = Inr () \<and> type_en (snd (update_en p en)) = toUpperCase t) \<and>
   (patch_type p = Some t \<and> t \<noteq> [] \<and>
    toUpperCase t \<notin> {''H'', ''N'', ''P'', ''S'', ''T'', ''X''} \<longrightarrow>
      update_en p en = (Inl (InvalidEndorsementTypeError t), en)) \<and>
   (\<not> truthy (patch_type p) \<longrightarrow>
      fst (update_en p en) = Inr () \<and> type_en (snd (update_en p en)) = type_en en)"
proof (intro conjI impI)
  assume "toUpperCase (data_type d) \<in> {''H'', ''N'', ''P'', ''S'', ''T'', ''X''}"
  then show "\<exists>en. create_en d = Inr en \<and> type_en en = toUpperCase (data_type d)"
    by (simp add: create_en_def validateType_iff new_Endorsement_def)
next
  assume "toUpperCase (data_type d) \<notin> {''H'', ''N'', ''P'', ''S'', ''T'', ''X''}"
  then show "create_en d = Inl (InvalidEndorsementTypeError (data_type d))"
    by (simp add: create_en_def validateType_iff)
next
  assume a: "patch_type p = Some t \<and> t \<noteq> [] \<and>
    toUpperCase t \<in> {''H'', ''N'', ''P'', ''S'', ''T'', ''X''}"
  then show "fst (update_en p en) = Inr ()"
    by (simp add: update_en_def validateType_iff split: option.splits)
  from a show "type_en (snd (update_en p en)) = toUpperCase t"
    by (simp add: update_en_def validateType_iff split: option.splits)
next
  assume "patch_type p = Some t \<and> t \<noteq> [] \<and>
    toUpperCase t \<notin> {''H'', ''N'', ''P'', ''S'', ''T'', ''X''}"
  then show "update_en p en = (Inl (InvalidEndorsementTypeError t), en)"
    by (simp add: update_en_def validateType_iff)
next
  assume a: "\<not> truthy (patch_type p)"
  then show "fst (update_en p en) = Inr ()"
    by (simp add: update_en_def truthy_def split: option.splits)
  from a show "type_en (snd (update_en p en)) = type_en en"
    by (simp add: update_en_def truthy_def split: option.splits)
qed

theorem endorsement_type_normalized_witness:
  "(\<exists>en. create_en \<lparr> data_type = ''h'', data_expiryDate = None, data_id_en = None,
                       data_driverId_en = None \<rparr> = Inr en \<and> type_en en = ''H'') \<and>
   create_en \<lparr> data_type = ''Z'', data_expiryDate = None, data_id_en = None,
               data_driverId_en = None \<rparr> = Inl (InvalidEndorsementTypeError ''Z'') \<and>
   fst (update_en \<lparr> patch_type = Some ''x'', patch_expiryDate = None \<rparr>
          \<lparr> id_en = Some 1, type_en = ''H'', expiryDate = None,
            driverId_en = Some ''d1'' \<rparr>) = Inr () \<and>
   type_en (snd (update_en \<lparr> patch_type = Some ''x'', patch_expiryDate = None \<rparr>
          \<lparr> id_en = Some 1, type_en = ''H'', expiryDate = None,
            driverId_en = Some ''d1'' \<rparr>)) = ''X'' \<and>
   update_en \<lparr> patch_type = Some ''q'', patch_expiryDate = Some 5 \<rparr>
       \<lparr> id_en = Some 1, type_en = ''H'', expiryDate = None, driverId_en = Some ''d1'' \<rparr> =
     (Inl (InvalidEndorsementTypeError ''q''),
      \<lparr> id_en = Some 1, type_en = ''H'', expiryDate = None, driverId_en = Some ''d1'' \<rparr>) \<and>
   type_en (snd (update_en \<lparr> patch_type = None, patch_expiryDate = Some 5 \<rparr>
          \<lparr> id_en = Some 1, type_en = ''H'', expiryDate = None,
            driverId_en = Some ''d1'' \<rparr>)) = ''H''"
  using
    endorsement_type_normalized [of
      "\<lparr> data_type = ''h'', data_expiryDate = None, data_id_en = None,
         data_driverId_en = None \<rparr>"
      "\<lparr> patch_type = Some ''x'', patch_expiryDate = None \<rparr>" "''x''"
      "\<lparr> id_en = Some 1, type_en = ''H'', expiryDate = None, driverId_en = Some ''d1'' \<rparr>"]
    endorsement_type_normalized [of
      "\<lparr> data_type = ''Z'', data_expiryDate = None, data_id_en = None,
         data_driverId_en = None \<rparr>"
      "\<lparr> patch_type = Some ''q'', patch_expiryDate = Some 5 \<rparr>" "''q''"
      "\<lparr> id_en = Some 1, type_en = ''H'', expiryDate = None, driverId_en = Some ''d1'' \<rparr>"]
    endorsement_type_normalized [of
      "\<lparr> data_type = ''Z'', data_expiryDate = None, data_id_en = None,
         data_driverId_en = None \<rparr>"
      "\<lparr> patch_type = None, patch_expiryDate = Some 5 \<rparr>" "''q''"
      "\<lparr> id_en = Some 1, type_en = ''H'', expiryDate = None, driverId_en = Some ''d1'' \<rparr>"]
  by (simp add: toUpperCase_def toUpper_char_def truthy_def)

section \<open>Properties of Driver and DriverService\<close>

subsection \<open>Credential status\<close>






subsection \<open>Loading and storing rows\<close>

lemma traverse_Inr_set:
  "traverse f xs = Inr ys \<Longrightarrow> \<forall>y\<in>set ys. \<exists>x\<in>set xs. f x = Inr y"
proof (induction xs arbitrary: ys)
  case Nil
  then show ?case by simp
next
  case (Cons x xs)
  then show ?case by (auto split: sum.splits)
qed

lemma traverse_Inr_I:
  "\<forall>x\<in>set xs. \<exists>y. f x = Inr y \<Longrightarrow> \<exists>ys. traverse f xs = Inr ys"
proof (induction xs)
  case Nil
  then show ?case by simp
next
  case (Cons x xs)
  then obtain y ys where "f x = Inr y" and "traverse f xs = Inr ys" by auto
  then show ?case by simp
qed

lemma traverse_Inr_all:
  "traverse f xs = Inr ys \<Longrightarrow> \<forall>x\<in>set xs. \<exists>y. f x = Inr y"
proof (induction xs arbitrary: ys)
  case Nil
  then show ?case by simp
next
  case (Cons x xs)
  then show ?case by (auto split: sum.splits)
qed

lemma valid_type_upper: "t \<in> set VALID_TYPES \<Longrightarrow> toUpperCase t = t"
  by (auto simp: VALID_TYPES_def toUpperCase_def toUpper_char_def)

lemma endorsementFromRow_valid:
  "endorsementFromRow x = Inr en \<Longrightarrow> type_en en \<in> set VALID_TYPES"
  by (auto simp: endorsementFromRow_def create_en_def validateType_def new_Endorsement_def
        Let_def split: if_splits)

lemma endorsementFromRow_of_valid:
  "enr_type x \<in> set VALID_TYPES \<Longrightarrow> \<exists>en. endorsementFromRow x = Inr en"
  by (simp add: endorsementFromRow_def create_en_def validateType_def valid_type_upper)

lemma documentFromRow_valid:
  "documentFromRow t x = Inr doc \<Longrightarrow> fileType doc \<in> set VALID_TYPES_doc"
  by (auto simp: documentFromRow_def create_doc_def validateType_doc_def new_Document_def
        split: if_splits)

lemma documentFromRow_time: "documentFromRow t x = documentFromRow t' x"
  by (simp add: documentFromRow_def create_doc_def split: sum.splits)

lemma documentFromRow_of_valid:
  "dcr_fileType x \<in> set VALID_TYPES_doc \<Longrightarrow> \<exists>doc. documentFromRow t x = Inr doc"
  by (simp add: documentFromRow_def create_doc_def validateType_doc_def)

lemma in_enumerate_snd: "p \<in> set (enumerate n xs) \<Longrightarrow> snd p \<in> set xs"
  by (cases p) (auto simp: enumerate_eq_zip dest: set_zip_rightD)

lemma reload_endorsements:
  assumes "traverse endorsementFromRow rows = Inr ens"
  shows "\<exists>ens'. traverse endorsementFromRow (newEndorsementRows n i ens) = Inr ens'"
proof (rule traverse_Inr_I, rule ballI)
  fix x assume "x \<in> set (newEndorsementRows n i ens)"
  then obtain p where "p \<in> set (enumerate n ens)" and "enr_type x = type_en (snd p)"
    by (auto simp: newEndorsementRows_def)
  then obtain en where "en \<in> set ens" and "enr_type x = type_en en"
    using in_enumerate_snd by blast
  moreover have "type_en en \<in> set VALID_TYPES" if "en \<in> set ens" for en
    using traverse_Inr_set [OF assms] that endorsementFromRow_valid by blast
  ultimately show "\<exists>y. endorsementFromRow x = Inr y"
    using endorsementFromRow_of_valid by simp
qed

lemma reload_documents:
  assumes "traverse (documentFromRow t0) rows = Inr docs"
  shows "\<exists>docs'. traverse (documentFromRow t) (rows @ newDocumentRows tu gen n i docs) = Inr docs'"
proof (rule traverse_Inr_I, rule ballI)
  fix x assume "x \<in> set (rows @ newDocumentRows tu gen n i docs)"
  then consider "x \<in> set rows" | "x \<in> set (newDocumentRows tu gen n i docs)" by auto
  then show "\<exists>y. documentFromRow t x = Inr y"
  proof cases
    case 1
    then show ?thesis
      using traverse_Inr_all [OF assms] documentFromRow_time [of t x t0] by auto
  next
    case 2
    then obtain p where "p \<in> set (enumerate n docs)" and "dcr_fileType x = fileType (snd p)"
      by (auto simp: newDocumentRows_def)
    then obtain doc where "doc \<in> set docs" and "dcr_fileType x = fileType doc"
      using in_enumerate_snd by blast
    moreover have "fileType doc \<in> set VALID_TYPES_doc" if "doc \<in> set docs" for doc
      using traverse_Inr_set [OF assms] that documentFromRow_valid by blast
    ultimately show ?thesis using documentFromRow_of_valid by simp
  qed
qed

lemma create_drv_loaded:
  "create_drv now
     \<lparr> firstName = firstName r, lastName = lastName r, dob = dob r,
       phonePrimary = phonePrimary r, phoneSecondary = orUndefined (phoneSecondary r),
       email = email r, licenseNumber = licenseNumber r,
       licenseState = licenseState r, licenseClass = licenseClass r,
       licenseExpiry = licenseExpiry r, medCertExpiry = medCertExpiry r,
       twicExpiry = twicExpiry r, hireDate = hireDate r,
       driverType = driverType r, notes_drv = orUndefined (notes_drv r),
       data_id_drv = Some (row_id r),
       data_employmentStatus = Some (row_employmentStatus r),
       data_status = Some (row_status r),
       data_loadId = orUndefined (row_loadId r),
       data_emergencyContacts = Some (map contactFromRow (row_emergencyContacts r)),
       data_endorsements = Some ens,
       data_documents = Some docs, data_hoursOfService = hos \<rparr> =
   (case validateDriverData now (loaded_driver now r ens docs hos) of
      Inl e \<Rightarrow> Inl e
    | Inr _ \<Rightarrow> Inr (loaded_driver now r ens docs hos))"
  by (simp add: create_drv_def loaded_driver_def truthy_def Let_def split: sum.splits)

lemma mapToDomainModel_eq:
  "mapToDomainModel now r =
     (case traverse endorsementFromRow (row_endorsements r) of
        Inl e \<Rightarrow> Inl e
      | Inr ens \<Rightarrow>
      case traverse (documentFromRow now) (row_documents r) of
        Inl e \<Rightarrow> Inl e
      | Inr docs \<Rightarrow>
      case loaded_hours r of
        Inl e \<Rightarrow> Inl e
      | Inr hos \<Rightarrow>
      case validateDriverData now (loaded_driver now r ens docs hos) of
        Inl e \<Rightarrow> Inl e
      | Inr _ \<Rightarrow> Inr (loaded_driver now r ens docs hos))"
  by (simp add: mapToDomainModel_def loaded_hours_def create_drv_loaded Let_def
        split: sum.splits)

lemma mapToDomainModel_Inr_E:
  assumes "mapToDomainModel now r = Inr d"
  obtains ens docs hos where
    "traverse endorsementFromRow (row_endorsements r) = Inr ens"
    "traverse (documentFromRow now) (row_documents r) = Inr docs"
    "loaded_hours r = Inr hos"
    "validateDriverData now (loaded_driver now r ens docs hos) = Inr ()"
    "d = loaded_driver now r ens docs hos"
  using assms unfolding mapToDomainModel_eq
  by (auto split: sum.splits)

lemma mapToDomainModel_Inr_I:
  assumes "traverse endorsementFromRow (row_endorsements r) = Inr ens"
    "traverse (documentFromRow now) (row_documents r) = Inr docs"
    "loaded_hours r = Inr hos"
    "validateDriverData now (loaded_driver now r ens docs hos) = Inr ()"
  shows "mapToDomainModel now r = Inr (loaded_driver now r ens docs hos)"
  using assms unfolding mapToDomainModel_eq by simp

lemma validateDriverData_cong:
  assumes "validated_fields c = validated_fields c'"
  shows "validateDriverData now c = validateDriverData now c'"
proof -
  from assms have f:
    "firstName c = firstName c'" "lastName c = lastName c'" "dob c = dob c'"
    "phonePrimary c = phonePrimary c'" "phoneSecondary c = phoneSecondary c'"
    "email c = email c'" "licenseNumber c = licenseNumber c'"
    "licenseState c = licenseState c'" "licenseClass c = licenseClass c'"
    "licenseExpiry c = licenseExpiry c'" "medCertExpiry c = medCertExpiry c'"
    "driverType c = driverType c'" "employmentStatus c = employmentStatus c'"
    by (simp_all add: validated_fields_def)
  show ?thesis
    unfolding validateDriverData_def missing_required_def by (simp only: f)
qed

lemma find_replace_first:
  "find P xs = Some r \<Longrightarrow> P y \<Longrightarrow> find P (replace_first P y xs) = Some y"
  by (induction xs) (auto split: if_splits)

lemma find_Some_mem: "find P xs = Some r \<Longrightarrow> r \<in> set xs \<and> P r"
  by (induction xs) (auto split: if_splits)

lemma orUndefined_idem: "orUndefined (orUndefined v) = orUndefined v"
  by (simp add: orUndefined_def)

lemma loaded_hours_updatedRow: "loaded_hours (updatedRow tu c db r) = loaded_hours r"
  by (simp add: loaded_hours_def updatedRow_def Let_def)

lemma reload_updated_row:
  assumes m: "mapToDomainModel now r = Inr d" and mt: "mapToDomainModel t r = Inr e"
  shows "\<exists>d'. mapToDomainModel t
            (updatedRow tu (d\<lparr> loadId := x, status := s, updatedAt := u \<rparr>) db r) = Inr d' \<and>
          status d' = s \<and> loadId d' = orUndefined x \<and> getFullName d' = getFullName d \<and>
          id_drv d' = Some (row_id r)"
proof -
  let ?c = "d\<lparr> loadId := x, status := s, updatedAt := u \<rparr>"
  let ?U = "updatedRow tu ?c db r"
  from m obtain ens docs hos where
    te: "traverse endorsementFromRow (row_endorsements r) = Inr ens" and
    td: "traverse (documentFromRow now) (row_documents r) = Inr docs" and
    lh: "loaded_hours r = Inr hos" and
    d: "d = loaded_driver now r ens docs hos"
    by (rule mapToDomainModel_Inr_E)
  from mt obtain ens2 docs2 hos2 where
    te2: "traverse endorsementFromRow (row_endorsements r) = Inr ens2" and
    lh2: "loaded_hours r = Inr hos2" and
    v2: "validateDriverData t (loaded_driver t r ens2 docs2 hos2) = Inr ()"
    by (rule mapToDomainModel_Inr_E)
  have re: "row_endorsements ?U = newEndorsementRows (nextEndorsementId db) (row_id r) ens"
    by (simp add: updatedRow_def Let_def d loaded_driver_def)
  have rd: "row_documents ?U =
      row_documents r @ newDocumentRows tu (uuid db) (nextUuid db) (row_id r) docs"
    by (simp add: updatedRow_def Let_def d loaded_driver_def)
  obtain ensU where eU: "traverse endorsementFromRow (row_endorsements ?U) = Inr ensU"
    unfolding re using reload_endorsements [OF te] by blast
  obtain docsU where dU: "traverse (documentFromRow t) (row_documents ?U) = Inr docsU"
    unfolding rd using reload_documents [OF td] by blast
  have hU: "loaded_hours ?U = Inr hos"
    by (simp add: loaded_hours_updatedRow lh)
  have vf: "validated_fields (loaded_driver t ?U ensU docsU hos) =
      validated_fields (loaded_driver t r ens2 docs2 hos2)"
    by (simp add: validated_fields_def loaded_driver_def updatedRow_def
          mapToPrismaModel_def Let_def d orUndefined_idem EmploymentStatus_ACTIVE_def)
  have vU: "validateDriverData t (loaded_driver t ?U ensU docsU hos) = Inr ()"
    using validateDriverData_cong [OF vf] v2 by simp
  have mU: "mapToDomainModel t ?U = Inr (loaded_driver t ?U ensU docsU hos)"
    by (rule mapToDomainModel_Inr_I [OF eU dU hU vU])
  have "status (loaded_driver t ?U ensU docsU hos) = s"
    and "loadId (loaded_driver t ?U ensU docsU hos) = orUndefined x"
    and "getFullName (loaded_driver t ?U ensU docsU hos) = getFullName d"
    and "id_drv (loaded_driver t ?U ensU docsU hos) = Some (row_id r)"
    by (simp_all add: loaded_driver_def updatedRow_def mapToPrismaModel_def Let_def d
          getFullName_def)
  with mU show ?thesis by blast
qed

lemma update_after_load:
  assumes f: "find (\<lambda>r. row_id r = i) (drivers db) = Some r"
    and m: "mapToDomainModel now r = Inr d"
    and mt: "mapToDomainModel t r = Inr e"
  shows "\<exists>d' db' r'.
     repository_update t (d\<lparr> loadId := x, status := s, updatedAt := u \<rparr>) db = (Inr d', db') \<and>
     status d' = s \<and> loadId d' = orUndefined x \<and> getFullName d' = getFullName d \<and>
     find (\<lambda>r. row_id r = i) (drivers db') = Some r' \<and>
     row_status r' = s \<and> row_loadId r' = x \<and> mapToDomainModel t r' = Inr d' \<and>
     (\<forall>t'. (\<exists>e'. mapToDomainModel t' r = Inr e') \<longrightarrow>
        (\<exists>e''. mapToDomainModel t' r' = Inr e'' \<and> status e'' = s \<and>
           loadId e'' = orUndefined x \<and> getFullName e'' = getFullName d))"
proof -
  let ?c = "d\<lparr> loadId := x, status := s, updatedAt := u \<rparr>"
  let ?U = "updatedRow t ?c db r"
  let ?db' = "db\<lparr> drivers := replace_first (\<lambda>x. row_id x = i) ?U (drivers db),
      nextUuid := nextUuid db + length (documents ?c),
      nextContactId := nextContactId db + length (emergencyContacts ?c),
      nextEndorsementId := nextEndorsementId db + length (endorsements ?c) \<rparr>"
  from find_Some_mem [OF f] have rin: "r \<in> set (drivers db)" and ri: "row_id r = i"
    by simp_all
  from m obtain ens docs hos where d: "d = loaded_driver now r ens docs hos"
    by (rule mapToDomainModel_Inr_E)
  have idc: "id_drv ?c = Some i" and emc: "email ?c = email r"
    by (simp_all add: d loaded_driver_def ri)
  have ru: "repository_update t ?c db = (mapToDomainModel t ?U, ?db')"
    using idc f emc by (simp add: repository_update_def Let_def)
  obtain d' where l: "mapToDomainModel t ?U = Inr d'" and
    p: "status d' = s" "loadId d' = orUndefined x" "getFullName d' = getFullName d"
    using reload_updated_row [OF m mt] by blast
  have iu: "row_id ?U = i" and eu: "email ?U = email r" and
    su: "row_status ?U = s" and lu: "row_loadId ?U = x"
    by (simp_all add: updatedRow_def mapToPrismaModel_def Let_def ri d loaded_driver_def)
  have fu: "find (\<lambda>r. row_id r = i) (drivers ?db') = Some ?U"
    using find_replace_first [OF f, of ?U] iu by simp
  have tr: "\<forall>t'. (\<exists>e'. mapToDomainModel t' r = Inr e') \<longrightarrow>
        (\<exists>e''. mapToDomainModel t' ?U = Inr e'' \<and> status e'' = s \<and>
           loadId e'' = orUndefined x \<and> getFullName e'' = getFullName d)"
    using reload_updated_row [OF m] by blast
  from ru l have ru': "repository_update t ?c db = (Inr d', ?db')" by simp
  show ?thesis
    apply (rule exI [of _ d'])
    apply (rule exI [of _ ?db'])
    apply (rule exI [of _ ?U])
    apply (intro conjI)
    apply (rule ru' p fu su lu l tr)+
    done
qed

lemma findById_Some_E:
  assumes "findById now i db = Inr (Some d)"
  obtains r where "find (\<lambda>r. row_id r = i) (drivers db) = Some r"
    and "mapToDomainModel now r = Inr d"
  using assms by (auto simp: findById_def split: option.splits sum.splits)

lemma findById_I:
  "find (\<lambda>r. row_id r = i) (drivers db) = Some r \<Longrightarrow> mapToDomainModel now r = Inr d \<Longrightarrow>
   findById now i db = Inr (Some d)"
  by (simp add: findById_def)

lemma orUndefined_Some: "orUndefined (Some l) = (if l = [] then None else Some l)"
  by (simp add: orUndefined_def truthy_def)

subsection \<open>The sample row\<close>

lemma hassan_birth_year: "getFullYear 855360000000 = 1997"
  by code_simp

lemma hassan_email_ok: "emailRegex_test ''hassan.kharal@example.com''"
  by (simp add: emailRegex_test_def is_space_def Let_def)

lemma hassan_phone_ok: "phoneRegex_test_digits ''519-980-6545''"
  by (simp add: phoneRegex_test_digits_def is_digit_def Let_def)

lemma hassan_row_parts:
  "traverse endorsementFromRow (row_endorsements (hassan_row s l)) =
     Inr [\<lparr> id_en = Some 1, type_en = ''H'', expiryDate = None, driverId_en = Some ''d1'' \<rparr>]"
  "traverse (documentFromRow now) (row_documents (hassan_row s l)) = Inr []"
  "loaded_hours (hassan_row s l) =
     Inr (Some \<lparr> id_hos = Some 1, drivingHoursToday = Fin 0, dutyHoursToday = Fin 0,
                 timeUntilBreakRequired = Fin 0, driverId_hos = Some ''d1'' \<rparr>)"
  by (simp_all add: hassan_row_def endorsementFromRow_def create_en_def validateType_def
        toUpperCase_def toUpper_char_def VALID_TYPES_def new_Endorsement_def truthy_def
        loaded_hours_def hoursFromRow_def create_hos_def validateHours_def js_gt_def
        MAX_DRIVING_HOURS_PER_DAY_def MAX_DUTY_HOURS_PER_DAY_def new_HoursOfService_def)

lemma hassan_row_loaded:
  "loaded_driver now (hassan_row s l)
     [\<lparr> id_en = Some 1, type_en = ''H'', expiryDate = None, driverId_en = Some ''d1'' \<rparr>] []
     (Some \<lparr> id_hos = Some 1, drivingHoursToday = Fin 0, dutyHoursToday = Fin 0,
             timeUntilBreakRequired = Fin 0, driverId_hos = Some ''d1'' \<rparr>) =
   hassan_loaded now s (orUndefined l)"
  by (simp add: loaded_driver_def hassan_row_def hassan_loaded_def orUndefined_def truthy_def)

lemma hassan_validate:
  assumes "21 \<le> getFullYear now - 1997" and "getFullYear now - 1997 \<le> 80"
  shows "validateDriverData now (hassan_loaded now s l) =
     (if 1817596800000 < now then Inl (InvalidDriverDataError ''License is already expired'')
      else Inr ())"
  using assms
  by (simp add: validateDriverData_def missing_required_def hassan_loaded_def truthy_def
        hassan_birth_year hassan_email_ok hassan_phone_ok DriverType_values_def
        EmploymentStatus_values_def Let_def)

lemma hassan_row_maps:
  assumes "21 \<le> getFullYear now - 1997" and "getFullYear now - 1997 \<le> 80"
  shows "mapToDomainModel now (hassan_row s l) =
     (if 1817596800000 < now then Inl (InvalidDriverDataError ''License is already expired'')
      else Inr (hassan_loaded now s (orUndefined l)))"
proof -
  have "mapToDomainModel now (hassan_row s l) =
     (case validateDriverData now (hassan_loaded now s (orUndefined l)) of
        Inl e \<Rightarrow> Inl e
      | Inr _ \<Rightarrow> Inr (hassan_loaded now s (orUndefined l)))"
    by (simp only: mapToDomainModel_eq hassan_row_parts sum.case hassan_row_loaded)
  then show ?thesis
    by (simp add: hassan_validate [OF assms])
qed

lemma year_2026a: "getFullYear 1767312000000 = 2026"
  by code_simp

lemma year_2026b: "getFullYear 1767312000001 = 2026"
  by code_simp

lemma year_2027: "getFullYear 1830000000000 = 2027"
  by code_simp

lemma hassan_find:
  "find (\<lambda>r. row_id r = ''d1'') (drivers (database_of [hassan_row s l])) = Some (hassan_row s l)"
  "find (\<lambda>r. email r = ''hassan.kharal@example.com'') (drivers (database_of [hassan_row s l])) =
     Some (hassan_row s l)"
  by (simp_all add: database_of_def hassan_row_def)

lemma hassan_findById:
  "findById 1767312000000 ''d1'' (database_of [hassan_row s None]) =
     Inr (Some (hassan_loaded 1767312000000 s None))"
  "findById 1767312000001 ''d1'' (database_of [hassan_row s None]) =
     Inr (Some (hassan_loaded 1767312000001 s None))"
  by (simp_all add: findById_def hassan_find hassan_row_maps year_2026a year_2026b
        orUndefined_def truthy_def)

lemma hassan_loaded_fields:
  "status (hassan_loaded now s l) = s" "loadId (hassan_loaded now s l) = l"
  "getFullName (hassan_loaded now s l) = ''Hassan Kharal''"
  by (simp_all add: hassan_loaded_def getFullName_def)

subsection \<open>Assigning and completing loads\<close>

text \<open>
  Claim C1: \<open>assignLoad\<close> on a driver whose status is not \<open>available\<close> fails with the
  "not available" condition, and on an available driver it sets the status to \<open>driving\<close>
  and stores the load id. The code breaks both halves for a stored driver whose licence
  has expired. \<open>findById\<close>, documented to return the driver if found, rebuilds the entity
  with \<open>Driver.create\<close>, whose validation throws before the service looks at the status:
  on 2027-12-28 the sample driver, whose licence expired on 2027-08-07, gets "License is
  already expired" from \<open>DriverService.assignLoad\<close> both when on a break and when
  available, and the stored row stays as it was.
\<close>

theorem assignLoad_expired_licence:
  "DriverService_assignLoad 1830000000000 ''d1'' ''L7'' (database_of [hassan_row ON_BREAK None]) =
     (Inl (InvalidDriverDataError ''License is already expired''),
      database_of [hassan_row ON_BREAK None]) \<and>
   DriverService_assignLoad 1830000000000 ''d1'' ''L7'' (database_of [hassan_row AVAILABLE None]) =
     (Inl (InvalidDriverDataError ''License is already expired''),
      database_of [hassan_row AVAILABLE None])"
  by (simp add: DriverService_assignLoad_def findById_def hassan_find hassan_row_maps year_2027)

text \<open>
  For a driver that the repository loads at the time of the call, the service does what
  the claim says. When the driver's status is not \<open>available\<close>, \<open>DriverService.assignLoad\<close>
  throws the "is not available for assignment" error and leaves the database as it was.
  When the status is \<open>available\<close> it returns the driver with status \<open>driving\<close>, the stored
  row has status \<open>driving\<close> and the given load id, the returned driver carries the load
  id when it is not empty, and the repository loads that driver afterwards. The guard is
  in the service; the entity method \<open>Driver.assignLoad\<close> assigns without a check.
\<close>

lemma assignLoad_of_loaded:
  assumes "findById now i db = Inr (Some d)"
  shows
  "(status d \<noteq> AVAILABLE \<longrightarrow>
      DriverService_assignLoad now i l db =
        (Inl (Error (''Driver '' @ getFullName d @ '' is not available for assignment'')), db)) \<and>
   (status d = AVAILABLE \<longrightarrow>
      (\<exists>d' db' r'. DriverService_assignLoad now i l db = (Inr d', db') \<and>
         status d' = DRIVING \<and> loadId d' = (if l = [] then None else Some l) \<and>
         find (\<lambda>r. row_id r = i) (drivers db') = Some r' \<and>
         row_status r' = DRIVING \<and> row_loadId r' = Some l \<and>
         findById now i db' = Inr (Some d')))"
proof (intro conjI impI)
  assume "status d \<noteq> AVAILABLE"
  with assms show "DriverService_assignLoad now i l db =
      (Inl (Error (''Driver '' @ getFullName d @ '' is not available for assignment'')), db)"
    by (simp add: DriverService_assignLoad_def isAvailable_def)
next
  assume a: "status d = AVAILABLE"
  from assms obtain r where f: "find (\<lambda>r. row_id r = i) (drivers db) = Some r"
    and m: "mapToDomainModel now r = Inr d"
    by (rule findById_Some_E)
  obtain d' db' r' where
    u: "repository_update now (d\<lparr> loadId := Some l, status := DRIVING, updatedAt := now \<rparr>) db =
          (Inr d', db')" and
    p: "status d' = DRIVING" "loadId d' = orUndefined (Some l)" and
    q: "find (\<lambda>r. row_id r = i) (drivers db') = Some r'" "row_status r' = DRIVING"
       "row_loadId r' = Some l" "mapToDomainModel now r' = Inr d'"
    using update_after_load [OF f m m, where x = "Some l" and s = DRIVING and u = now] by blast
  have s: "DriverService_assignLoad now i l db = (Inr d', db')"
    using assms a u by (simp add: DriverService_assignLoad_def isAvailable_def assignLoad_def)
  have fd: "findById now i db' = Inr (Some d')"
    using q(1) q(4) by (rule findById_I)
  from s p q fd
  show "\<exists>d' db' r'. DriverService_assignLoad now i l db = (Inr d', db') \<and>
         status d' = DRIVING \<and> loadId d' = (if l = [] then None else Some l) \<and>
         find (\<lambda>r. row_id r = i) (drivers db') = Some r' \<and>
         row_status r' = DRIVING \<and> row_loadId r' = Some l \<and>
         findById now i db' = Inr (Some d')"
    unfolding orUndefined_Some by blast
qed

text \<open>
  Claim C8: creating a driver with an email that a stored record has fails with the
  "already exists" condition. The code breaks it when the stored record no longer passes
  the validation of \<open>Driver.create\<close>: \<open>findByEmail\<close>, documented to return the driver if
  found, throws the validation error of the stored record, and \<open>createDriver\<close> ends with
  "License is already expired" instead of the duplicate condition. The cause is the
  validation inside \<open>mapToDomainModel\<close>, the one that stops \<open>assignLoad\<close> above.
\<close>

theorem createDriver_expired_licence:
  "DriverService_createDriver 1830000000000 (request_with_email ''hassan.kharal@example.com'') []
     (database_of [hassan_row DRIVING (Some ''L7'')]) =
     (Inl (InvalidDriverDataError ''License is already expired''),
      database_of [hassan_row DRIVING (Some ''L7'')])"
proof -
  have e: "email (request_with_email ''hassan.kharal@example.com'') =
      ''hassan.kharal@example.com''"
    by (simp add: request_with_email_def)
  show ?thesis
    by (simp add: DriverService_createDriver_def findByEmail_def e hassan_find hassan_row_maps
          year_2027)
qed

text \<open>
  Whenever a stored record has the email of the request, \<open>createDriver\<close> fails and the
  database is as it was, whatever the other fields, the uploaded files and the clock
  are: with the "already exists" error when the stored record passes the validation of
  \<open>Driver.create\<close> at the time of the call, and with the validation error of the stored
  record otherwise.
\<close>

lemma createDriver_of_stored_email:
  assumes "find (\<lambda>x. email x = email driverData) (drivers db) = Some r"
  shows
  "DriverService_createDriver now driverData files db =
     (case mapToDomainModel now r of
        Inr existing \<Rightarrow>
          (Inl (Error (''A driver with email '' @ email driverData @ '' already exists'')), db)
      | Inl e \<Rightarrow> (Inl e, db))"
  by (simp add: DriverService_createDriver_def findByEmail_def assms split: sum.splits)

text \<open>
  Claim C6, as stated, fails for the empty load id. \<open>assignLoad\<close> stores it and sets the
  status to \<open>driving\<close>; \<open>completeLoad\<close> then finds \<open>loadId\<close> falsy and throws, and the
  stored driver stays in status \<open>driving\<close>.
\<close>

theorem assign_empty_load_counterexample:
  "\<exists>d1 db1 r1.
     DriverService_assignLoad 1767312000000 ''d1'' '''' (database_of [hassan_row AVAILABLE None]) =
       (Inr d1, db1) \<and>
     DriverService_completeLoad 1767312000001 ''d1'' db1 =
       (Inl (Error ''Driver Hassan Kharal does not have a load assigned''), db1) \<and>
     find (\<lambda>r. row_id r = ''d1'') (drivers db1) = Some r1 \<and>
     row_status r1 = DRIVING \<and> row_loadId r1 = Some ''''"
proof -
  let ?db = "database_of [hassan_row AVAILABLE None]"
  let ?r = "hassan_row AVAILABLE None"
  let ?d = "hassan_loaded 1767312000000 AVAILABLE None"
  have m: "mapToDomainModel 1767312000000 ?r = Inr ?d"
    by (simp add: hassan_row_maps year_2026a orUndefined_def truthy_def)
  have m': "\<exists>e. mapToDomainModel 1767312000001 ?r = Inr e"
    by (simp add: hassan_row_maps year_2026b)
  have av: "status ?d = AVAILABLE" and nm: "getFullName ?d = ''Hassan Kharal''"
    by (simp_all add: hassan_loaded_def getFullName_def)
  obtain d1 db1 r1 where
    u1: "repository_update 1767312000000
          (?d\<lparr> loadId := Some '''', status := DRIVING, updatedAt := 1767312000000 \<rparr>) ?db =
          (Inr d1, db1)" and
    f1: "find (\<lambda>r. row_id r = ''d1'') (drivers db1) = Some r1" and
    q1: "row_status r1 = DRIVING" "row_loadId r1 = Some ''''" and
    t1: "\<forall>t'. (\<exists>e'. mapToDomainModel t' ?r = Inr e') \<longrightarrow>
        (\<exists>e''. mapToDomainModel t' r1 = Inr e'' \<and> status e'' = DRIVING \<and>
           loadId e'' = orUndefined (Some '''') \<and> getFullName e'' = getFullName ?d)"
    using update_after_load [OF hassan_find(1) m m,
        where x = "Some ''''" and s = DRIVING and u = 1767312000000]
    by blast
  have s1: "DriverService_assignLoad 1767312000000 ''d1'' '''' ?db = (Inr d1, db1)"
    using m av u1
    by (simp add: DriverService_assignLoad_def findById_def hassan_find isAvailable_def
          assignLoad_def)
  from t1 m' obtain e1 where m1: "mapToDomainModel 1767312000001 r1 = Inr e1"
    and l1: "loadId e1 = orUndefined (Some '''')" and n1: "getFullName e1 = getFullName ?d"
    by blast
  have s2: "DriverService_completeLoad 1767312000001 ''d1'' db1 =
      (Inl (Error ''Driver Hassan Kharal does not have a load assigned''), db1)"
    using f1 m1 l1 n1 nm
    by (simp add: DriverService_completeLoad_def findById_def orUndefined_def truthy_def)
  from s1 s2 f1 q1 show ?thesis by blast
qed

text \<open>
  Claim C6, amended. Let the repository load the driver at the time of each of the two
  calls, let the driver's status be \<open>available\<close> and the load id not empty. Then
  \<open>assignLoad\<close> followed by \<open>completeLoad\<close> returns the driver with status \<open>available\<close>
  and no load, and the repository loads that driver afterwards. \<open>completeLoad\<close> on a
  loaded driver whose load id is missing or empty throws the "does not have a load
  assigned" error and leaves the database as it was.
\<close>

theorem assign_then_complete:
  "(findById now i db = Inr (Some d) \<and> status d = AVAILABLE \<and> l \<noteq> [] \<and>
    findById now' i db = Inr (Some e) \<longrightarrow>
      (\<exists>d1 db1 d2 db2.
         DriverService_assignLoad now i l db = (Inr d1, db1) \<and>
         DriverService_completeLoad now' i db1 = (Inr d2, db2) \<and>
         status d2 = AVAILABLE \<and> loadId d2 = None \<and> findById now' i db2 = Inr (Some d2))) \<and>
   (findById now i db = Inr (Some d) \<and> \<not> truthy (loadId d) \<longrightarrow>
      DriverService_completeLoad now i db =
        (Inl (Error (''Driver '' @ getFullName d @ '' does not have a load assigned'')), db))"
proof (intro conjI impI)
  assume a: "findById now i db = Inr (Some d) \<and> status d = AVAILABLE \<and>
    l \<noteq> [] \<and> findById now' i db = Inr (Some e)"
  then have fd: "findById now i db = Inr (Some d)"
    and av: "status d = AVAILABLE" and l: "l \<noteq> []"
    and fe: "findById now' i db = Inr (Some e)"
    by simp_all
  from fd obtain r where f: "find (\<lambda>r. row_id r = i) (drivers db) = Some r"
    and m: "mapToDomainModel now r = Inr d"
    by (rule findById_Some_E)
  from fe f have me: "mapToDomainModel now' r = Inr e"
    by (auto simp: findById_def split: sum.splits)
  obtain d1 db1 r1 where
    u1: "repository_update now (d\<lparr> loadId := Some l, status := DRIVING, updatedAt := now \<rparr>) db =
          (Inr d1, db1)" and
    f1: "find (\<lambda>r. row_id r = i) (drivers db1) = Some r1" and
    t1: "\<forall>t'. (\<exists>e'. mapToDomainModel t' r = Inr e') \<longrightarrow>
        (\<exists>e''. mapToDomainModel t' r1 = Inr e'' \<and> status e'' = DRIVING \<and>
           loadId e'' = orUndefined (Some l) \<and> getFullName e'' = getFullName d)"
    using update_after_load [OF f m m, where x = "Some l" and s = DRIVING and u = now] by blast
  have s1: "DriverService_assignLoad now i l db = (Inr d1, db1)"
    using fd av u1 by (simp add: DriverService_assignLoad_def isAvailable_def assignLoad_def)
  from t1 me obtain e1 where m1: "mapToDomainModel now' r1 = Inr e1"
    and l1: "loadId e1 = orUndefined (Some l)"
    by blast
  have fd1: "findById now' i db1 = Inr (Some e1)"
    using f1 m1 by (rule findById_I)
  have tr: "truthy (loadId e1)"
    using l l1 by (simp add: orUndefined_Some truthy_def)
  obtain d2 db2 r2 where
    u2: "repository_update now' (e1\<lparr> loadId := None, status := AVAILABLE, updatedAt := now' \<rparr>)
          db1 = (Inr d2, db2)" and
    p2: "status d2 = AVAILABLE" "loadId d2 = orUndefined None" and
    f2: "find (\<lambda>r. row_id r = i) (drivers db2) = Some r2" and
    m2: "mapToDomainModel now' r2 = Inr d2"
    using update_after_load [OF f1 m1 m1, where x = None and s = AVAILABLE and u = now'] by blast
  have s2: "DriverService_completeLoad now' i db1 = (Inr d2, db2)"
    using fd1 tr u2 by (simp add: DriverService_completeLoad_def completeLoad_def)
  have fd2: "findById now' i db2 = Inr (Some d2)"
    using f2 m2 by (rule findById_I)
  have "loadId d2 = None"
    using p2(2) by (simp add: orUndefined_def truthy_def)
  with s1 s2 p2(1) fd2
  show "\<exists>d1 db1 d2 db2.
         DriverService_assignLoad now i l db = (Inr d1, db1) \<and>
         DriverService_completeLoad now' i db1 = (Inr d2, db2) \<and>
         status d2 = AVAILABLE \<and> loadId d2 = None \<and> findById now' i db2 = Inr (Some d2)"
    by blast
next
  assume "findById now i db = Inr (Some d) \<and> \<not> truthy (loadId d)"
  then show "DriverService_completeLoad now i db =
      (Inl (Error (''Driver '' @ getFullName d @ '' does not have a load assigned'')), db)"
    by (simp add: DriverService_completeLoad_def)
qed

text \<open>
  The amended claim C6 on the sample row: an available driver is assigned load L7 and
  completes it; a driver on a break, who has no load, cannot complete one.
\<close>

theorem assign_then_complete_witness:
  "(\<exists>d1 db1 d2 db2.
      DriverService_assignLoad 1767312000000 ''d1'' ''L7''
        (database_of [hassan_row AVAILABLE None]) = (Inr d1, db1) \<and>
      DriverService_completeLoad 1767312000001 ''d1'' db1 = (Inr d2, db2) \<and>
      status d2 = AVAILABLE \<and> loadId d2 = None \<and>
      findById 1767312000001 ''d1'' db2 = Inr (Some d2)) \<and>
   DriverService_completeLoad 1767312000000 ''d1'' (database_of [hassan_row ON_BREAK None]) =
     (Inl (Error ''Driver Hassan Kharal does not have a load assigned''),
      database_of [hassan_row ON_BREAK None])"
  using
    assign_then_complete [where db = "database_of [hassan_row AVAILABLE None]"
      and now = 1767312000000 and i = "''d1''"
      and d = "hassan_loaded 1767312000000 AVAILABLE None" and l = "''L7''"
      and now' = 1767312000001 and e = "hassan_loaded 1767312000001 AVAILABLE None"]
    assign_then_complete [where db = "database_of [hassan_row ON_BREAK None]"
      and now = 1767312000000 and i = "''d1''"
      and d = "hassan_loaded 1767312000000 ON_BREAK None" and l = "''L7''"
      and now' = 1767312000001 and e = "hassan_loaded 1767312000001 ON_BREAK None"]
  by (simp add: hassan_find hassan_findById hassan_loaded_fields truthy_def)

subsection \<open>Date of birth\<close>

text \<open>
  What \<open>validateDriverData\<close> checks of the date of birth is the difference of the two
  calendar years.
\<close>

lemma validateDriverData_birth_year:
  "validateDriverData now d = Inr () \<Longrightarrow>
   21 \<le> getFullYear now - getFullYear (dob d) \<and> getFullYear now - getFullYear (dob d) \<le> 80"
  by (auto simp: validateDriverData_def Let_def split: option.splits if_splits)

text \<open>
  Claim C4 says that a date of birth is accepted exactly when the age is between 21 and
  80 years. The check compares calendar years only. On 2026-01-01 a driver born on
  2005-12-31 is 20 years old and \<open>Driver.create\<close> accepts the record; a driver born on
  1945-12-31 is 80 years old and \<open>Driver.create\<close> throws the date-of-birth error, whose
  message says that the driver must be between 21 and 80 years old.
\<close>

theorem birth_year_check_admits_age_20:
  "civil_from_days (Day 1767225600000) = (2026, 1, 1) \<and>
   civil_from_days (Day 1135987200000) = (2005, 12, 31) \<and>
   age_in_years 1767225600000 1135987200000 = 20 \<and>
   (\<exists>d. create_drv 1767225600000 (hassan 1135987200000) = Inr d) \<and>
   civil_from_days (Day (- 757468800000)) = (1945, 12, 31) \<and>
   age_in_years 1767225600000 (- 757468800000) = 80 \<and>
   create_drv 1767225600000 (hassan (- 757468800000)) =
     Inl (InvalidDriverDataError
            ''Invalid date of birth (driver must be between 21 and 80 years old)'')"
proof -
  have c1: "civil_from_days (Day 1767225600000) = (2026, 1, 1)"
    by code_simp
  have c2: "civil_from_days (Day 1135987200000) = (2005, 12, 31)"
    by code_simp
  have c3: "civil_from_days (Day (- 757468800000)) = (1945, 12, 31)"
    by code_simp
  have e: "emailRegex_test ''hassan.kharal@example.com''"
    by (simp add: emailRegex_test_def is_space_def Let_def)
  have p: "phoneRegex_test_digits ''519-980-6545''"
    by (simp add: phoneRegex_test_digits_def is_digit_def Let_def)
  have a1: "age_in_years 1767225600000 1135987200000 = 20"
    by (simp add: age_in_years_def c1 c2)
  have a2: "age_in_years 1767225600000 (- 757468800000) = 80"
    by (simp add: age_in_years_def c1 c3)
  have r1: "\<exists>d. create_drv 1767225600000 (hassan 1135987200000) = Inr d"
    by (simp add: create_drv_def hassan_def validateDriverData_def missing_required_def
          truthy_def getFullYear_def c1 c2 e p DriverType_values_def
          EmploymentStatus_values_def EmploymentStatus_ACTIVE_def Let_def)
  have r2: "create_drv 1767225600000 (hassan (- 757468800000)) =
     Inl (InvalidDriverDataError
            ''Invalid date of birth (driver must be between 21 and 80 years old)'')"
    by (simp add: create_drv_def hassan_def validateDriverData_def missing_required_def
          truthy_def getFullYear_def c1 c3 e p DriverType_values_def
          EmploymentStatus_values_def EmploymentStatus_ACTIVE_def Let_def)
  from c1 c2 c3 a1 a2 r1 r2 show ?thesis by blast
qed

end
